theory Spec2Isabelle
  imports Complex_Main "HOL-Library.Sublist" "HOL-Library.Log_Nat"
begin

section \<open>Python values used by the scripts\<close>

text \<open>
  A Python \<open>str\<close> is a sequence of Unicode code points; it is modelled as the list of
  its code points. \<open>cps\<close> turns an ASCII literal into that list.
\<close>

type_synonym pystr = "nat list"

definition cps :: "string \<Rightarrow> pystr" where
  "cps s = map of_char s"

text \<open>
  \<open>str.upper()\<close>, the full uppercase mapping of Unicode 14 (CPython 3.11), which maps
  every code point by itself. Most code points with an uppercase form have one of a single
  code point, and they come in runs: \<open>(first, last, step, image)\<close> stands for the code
  points \<open>first\<close>, \<open>first + step\<close>, ... up to \<open>last\<close>, mapped to \<open>image\<close>,
  \<open>image + step\<close>, ... in this order.
\<close>

definition upper_runs :: "(nat \<times> nat \<times> nat \<times> nat) list" where
  "upper_runs =
     [(181, 181, 1, 924), (224, 246, 1, 192), (248, 254, 1, 216), (255, 255, 1, 376),
      (257, 303, 2, 256), (305, 305, 1, 73), (307, 311, 2, 306), (314, 328, 2, 313),
      (331, 375, 2, 330), (378, 382, 2, 377), (383, 383, 1, 83), (384, 384, 1, 579),
      (387, 389, 2, 386), (392, 392, 1, 391), (396, 396, 1, 395), (402, 402, 1, 401),
      (405, 405, 1, 502), (409, 409, 1, 408), (410, 410, 1, 573), (414, 414, 1, 544),
      (417, 421, 2, 416), (424, 424, 1, 423), (429, 429, 1, 428), (432, 432, 1, 431),
      (436, 438, 2, 435), (441, 441, 1, 440), (445, 445, 1, 444), (447, 447, 1, 503),
      (453, 453, 1, 452), (454, 454, 1, 452), (456, 456, 1, 455), (457, 457, 1, 455),
      (459, 459, 1, 458), (460, 460, 1, 458), (462, 476, 2, 461), (477, 477, 1, 398),
      (479, 495, 2, 478), (498, 498, 1, 497), (499, 499, 1, 497), (501, 501, 1, 500),
      (505, 543, 2, 504), (547, 563, 2, 546), (572, 572, 1, 571), (575, 576, 1, 11390),
      (578, 578, 1, 577), (583, 591, 2, 582), (592, 592, 1, 11375), (593, 593, 1, 11373),
      (594, 594, 1, 11376), (595, 595, 1, 385), (596, 596, 1, 390), (598, 599, 1, 393),
      (601, 601, 1, 399), (603, 603, 1, 400), (604, 604, 1, 42923), (608, 608, 1, 403),
      (609, 609, 1, 42924), (611, 611, 1, 404), (613, 613, 1, 42893), (614, 614, 1, 42922),
      (616, 616, 1, 407), (617, 617, 1, 406), (618, 618, 1, 42926), (619, 619, 1, 11362),
      (620, 620, 1, 42925), (623, 623, 1, 412), (625, 625, 1, 11374), (626, 626, 1, 413),
      (629, 629, 1, 415), (637, 637, 1, 11364), (640, 640, 1, 422), (642, 642, 1, 42949),
      (643, 643, 1, 425), (647, 647, 1, 42929), (648, 648, 1, 430), (649, 649, 1, 580),
      (650, 651, 1, 433), (652, 652, 1, 581), (658, 658, 1, 439), (669, 669, 1, 42930),
      (670, 670, 1, 42928), (837, 837, 1, 921), (881, 883, 2, 880), (887, 887, 1, 886),
      (891, 893, 1, 1021), (940, 940, 1, 902), (941, 943, 1, 904), (945, 961, 1, 913),
      (962, 962, 1, 931), (963, 971, 1, 931), (972, 972, 1, 908), (973, 974, 1, 910),
      (976, 976, 1, 914), (977, 977, 1, 920), (981, 981, 1, 934), (982, 982, 1, 928),
      (983, 983, 1, 975), (985, 1007, 2, 984), (1008, 1008, 1, 922), (1009, 1009, 1, 929),
      (1010, 1010, 1, 1017), (1011, 1011, 1, 895), (1013, 1013, 1, 917),
      (1016, 1016, 1, 1015), (1019, 1019, 1, 1018), (1072, 1103, 1, 1040),
      (1104, 1119, 1, 1024), (1121, 1153, 2, 1120), (1163, 1215, 2, 1162),
      (1218, 1230, 2, 1217), (1231, 1231, 1, 1216), (1233, 1327, 2, 1232),
      (1377, 1414, 1, 1329), (4304, 4346, 1, 7312), (4349, 4351, 1, 7357),
      (5112, 5117, 1, 5104), (7296, 7296, 1, 1042), (7297, 7297, 1, 1044),
      (7298, 7298, 1, 1054), (7299, 7300, 1, 1057), (7301, 7301, 1, 1058),
      (7302, 7302, 1, 1066), (7303, 7303, 1, 1122), (7304, 7304, 1, 42570),
      (7545, 7545, 1, 42877), (7549, 7549, 1, 11363), (7566, 7566, 1, 42950),
      (7681, 7829, 2, 7680), (7835, 7835, 1, 7776), (7841, 7935, 2, 7840),
      (7936, 7943, 1, 7944), (7952, 7957, 1, 7960), (7968, 7975, 1, 7976),
      (7984, 7991, 1, 7992), (8000, 8005, 1, 8008), (8017, 8023, 2, 8025),
      (8032, 8039, 1, 8040), (8048, 8049, 1, 8122), (8050, 8053, 1, 8136),
      (8054, 8055, 1, 8154), (8056, 8057, 1, 8184), (8058, 8059, 1, 8170),
      (8060, 8061, 1, 8186), (8112, 8113, 1, 8120), (8126, 8126, 1, 921),
      (8144, 8145, 1, 8152), (8160, 8161, 1, 8168), (8165, 8165, 1, 8172),
      (8526, 8526, 1, 8498), (8560, 8575, 1, 8544), (8580, 8580, 1, 8579),
      (9424, 9449, 1, 9398), (11312, 11359, 1, 11264), (11361, 11361, 1, 11360),
      (11365, 11365, 1, 570), (11366, 11366, 1, 574), (11368, 11372, 2, 11367),
      (11379, 11379, 1, 11378), (11382, 11382, 1, 11381), (11393, 11491, 2, 11392),
      (11500, 11502, 2, 11499), (11507, 11507, 1, 11506), (11520, 11557, 1, 4256),
      (11559, 11559, 1, 4295), (11565, 11565, 1, 4301), (42561, 42605, 2, 42560),
      (42625, 42651, 2, 42624), (42787, 42799, 2, 42786), (42803, 42863, 2, 42802),
      (42874, 42876, 2, 42873), (42879, 42887, 2, 42878), (42892, 42892, 1, 42891),
      (42897, 42899, 2, 42896), (42900, 42900, 1, 42948), (42903, 42921, 2, 42902),
      (42933, 42947, 2, 42932), (42952, 42954, 2, 42951), (42961, 42961, 1, 42960),
      (42967, 42969, 2, 42966), (42998, 42998, 1, 42997), (43859, 43859, 1, 42931),
      (43888, 43967, 1, 5024), (65345, 65370, 1, 65313), (66600, 66639, 1, 66560),
      (66776, 66811, 1, 66736), (66967, 67003, 2, 66928), (66968, 66976, 2, 66929),
      (66980, 66992, 2, 66941), (66996, 67000, 2, 66957), (67004, 67004, 1, 66965),
      (68800, 68850, 1, 68736), (71872, 71903, 1, 71840), (93792, 93823, 1, 93760),
      (125218, 125251, 1, 125184)]"

text \<open>The code points whose uppercase form has several code points (\<open>SS\<close> for the sharp s).\<close>

definition upper_special :: "(nat \<times> nat list) list" where
  "upper_special =
     [(223, [83, 83]), (329, [700, 78]), (496, [74, 780]), (912, [921, 776, 769]),
      (944, [933, 776, 769]), (1415, [1333, 1362]), (7830, [72, 817]), (7831, [84, 776]),
      (7832, [87, 778]), (7833, [89, 778]), (7834, [65, 702]), (8016, [933, 787]),
      (8018, [933, 787, 768]), (8020, [933, 787, 769]), (8022, [933, 787, 834]),
      (8064, [7944, 921]), (8065, [7945, 921]), (8066, [7946, 921]), (8067, [7947, 921]),
      (8068, [7948, 921]), (8069, [7949, 921]), (8070, [7950, 921]), (8071, [7951, 921]),
      (8072, [7944, 921]), (8073, [7945, 921]), (8074, [7946, 921]), (8075, [7947, 921]),
      (8076, [7948, 921]), (8077, [7949, 921]), (8078, [7950, 921]), (8079, [7951, 921]),
      (8080, [7976, 921]), (8081, [7977, 921]), (8082, [7978, 921]), (8083, [7979, 921]),
      (8084, [7980, 921]), (8085, [7981, 921]), (8086, [7982, 921]), (8087, [7983, 921]),
      (8088, [7976, 921]), (8089, [7977, 921]), (8090, [7978, 921]), (8091, [7979, 921]),
      (8092, [7980, 921]), (8093, [7981, 921]), (8094, [7982, 921]), (8095, [7983, 921]),
      (8096, [8040, 921]), (8097, [8041, 921]), (8098, [8042, 921]), (8099, [8043, 921]),
      (8100, [8044, 921]), (8101, [8045, 921]), (8102, [8046, 921]), (8103, [8047, 921]),
      (8104, [8040, 921]), (8105, [8041, 921]), (8106, [8042, 921]), (8107, [8043, 921]),
      (8108, [8044, 921]), (8109, [8045, 921]), (8110, [8046, 921]), (8111, [8047, 921]),
      (8114, [8122, 921]), (8115, [913, 921]), (8116, [902, 921]), (8118, [913, 834]),
      (8119, [913, 834, 921]), (8124, [913, 921]), (8130, [8138, 921]), (8131, [919, 921]),
      (8132, [905, 921]), (8134, [919, 834]), (8135, [919, 834, 921]), (8140, [919, 921]),
      (8146, [921, 776, 768]), (8147, [921, 776, 769]), (8150, [921, 834]),
      (8151, [921, 776, 834]), (8162, [933, 776, 768]), (8163, [933, 776, 769]),
      (8164, [929, 787]), (8166, [933, 834]), (8167, [933, 776, 834]), (8178, [8186, 921]),
      (8179, [937, 921]), (8180, [911, 921]), (8182, [937, 834]), (8183, [937, 834, 921]),
      (8188, [937, 921]), (64256, [70, 70]), (64257, [70, 73]), (64258, [70, 76]),
      (64259, [70, 70, 73]), (64260, [70, 70, 76]), (64261, [83, 84]), (64262, [83, 84]),
      (64275, [1348, 1350]), (64276, [1348, 1333]), (64277, [1348, 1339]),
      (64278, [1358, 1350]), (64279, [1348, 1341])]"

definition upper_cp :: "nat \<Rightarrow> nat list" where
  "upper_cp c =
     (if c < 128 then [if 97 \<le> c \<and> c \<le> 122 then c - 32 else c]
      else case map_of upper_special c of
             Some u \<Rightarrow> u
           | None \<Rightarrow>
               (case find (\<lambda>(lo, hi, st, im). lo \<le> c \<and> c \<le> hi \<and> (c - lo) mod st = 0) upper_runs of
                  Some (lo, hi, st, im) \<Rightarrow> [im + (c - lo)]
                | None \<Rightarrow> [c]))"

definition py_upper :: "pystr \<Rightarrow> pystr" where
  "py_upper s = concat (map upper_cp s)"

text \<open>The operator \<open>p in x\<close> on strings: \<open>p\<close> occurs in \<open>x\<close> as a contiguous run.\<close>

fun str_in :: "pystr \<Rightarrow> pystr \<Rightarrow> bool" where
  "str_in p [] = (p = [])"
| "str_in p (c # cs) = (prefix p (c # cs) \<or> str_in p cs)"

text \<open>
  A float64 cell. \<open>NaN\<close> is also what pandas stores for a missing value in a float
  column. Finite values are kept as exact rationals.
\<close>

datatype pyfloat = Fin rat | PInf | NInf | NaN

definition notna :: "pyfloat \<Rightarrow> bool" where
  "notna x = (x \<noteq> NaN)"

fun fneg :: "pyfloat \<Rightarrow> pyfloat" where
  "fneg (Fin a) = Fin (- a)"
| "fneg PInf = NInf"
| "fneg NInf = PInf"
| "fneg NaN = NaN"

fun fadd :: "pyfloat \<Rightarrow> pyfloat \<Rightarrow> pyfloat" where
  "fadd NaN _ = NaN"
| "fadd _ NaN = NaN"
| "fadd (Fin a) (Fin b) = Fin (a + b)"
| "fadd PInf NInf = NaN"
| "fadd NInf PInf = NaN"
| "fadd PInf _ = PInf"
| "fadd _ PInf = PInf"
| "fadd NInf _ = NInf"
| "fadd _ NInf = NInf"

definition fsub :: "pyfloat \<Rightarrow> pyfloat \<Rightarrow> pyfloat" where
  "fsub a b = fadd a (fneg b)"

text \<open>\<open>a < b\<close> on floats; every comparison with \<open>NaN\<close> is false.\<close>

fun fless :: "pyfloat \<Rightarrow> pyfloat \<Rightarrow> bool" where
  "fless NaN _ = False"
| "fless _ NaN = False"
| "fless (Fin a) (Fin b) = (a < b)"
| "fless _ NInf = False"
| "fless NInf _ = True"
| "fless PInf _ = False"
| "fless _ PInf = True"

text \<open>Division of numpy float64 scalars (a zero divisor gives an infinity or \<open>NaN\<close>).\<close>

fun fdiv :: "pyfloat \<Rightarrow> pyfloat \<Rightarrow> pyfloat" where
  "fdiv NaN _ = NaN"
| "fdiv _ NaN = NaN"
| "fdiv (Fin a) (Fin b) =
     (if b \<noteq> 0 then Fin (a / b)
      else if 0 < a then PInf else if a < 0 then NInf else NaN)"
| "fdiv (Fin a) _ = Fin 0"
| "fdiv PInf (Fin b) = (if b < 0 then NInf else PInf)"
| "fdiv NInf (Fin b) = (if b < 0 then PInf else NInf)"
| "fdiv _ _ = NaN"

subsection \<open>Reductions of a pandas Series (missing values are skipped)\<close>

text \<open>
  Sums and means are those of the exact values: the rounding of float64 arithmetic is
  not part of the model.
\<close>

definition ser_sum :: "pyfloat list \<Rightarrow> pyfloat" where
  "ser_sum xs = foldl fadd (Fin 0) (filter notna xs)"

definition ser_mean :: "pyfloat list \<Rightarrow> pyfloat" where
  "ser_mean xs =
     (let ys = filter notna xs
      in if ys = [] then NaN else fdiv (foldl fadd (Fin 0) ys) (Fin (of_nat (length ys))))"

definition ser_max :: "pyfloat list \<Rightarrow> pyfloat" where
  "ser_max xs =
     (case filter notna xs of [] \<Rightarrow> NaN
      | y # ys \<Rightarrow> foldl (\<lambda>m x. if fless m x then x else m) y ys)"

definition ser_min :: "pyfloat list \<Rightarrow> pyfloat" where
  "ser_min xs =
     (case filter notna xs of [] \<Rightarrow> NaN
      | y # ys \<Rightarrow> foldl (\<lambda>m x. if fless x m then x else m) y ys)"

text \<open>
  An integer column with gaps is a float column in pandas. The integer is kept as it
  is; float64 rounds integers above \<open>2 ^ 53\<close>.
\<close>

definition int_cell :: "int option \<Rightarrow> pyfloat" where
  "int_cell v = (case v of None \<Rightarrow> NaN | Some i \<Rightarrow> Fin (of_int i))"

section \<open>Daily records\<close>

text \<open>
  One row of the raw daily batch, with the columns that \<open>scrape_daily_data\<close> writes.
  A date \<open>'YYYY-MM-DD'\<close> is represented by its day number, so that the order of the
  strings is the order of the numbers and a difference of dates is a number of days.
  \<open>release\<close> and \<open>movie_url\<close> are a string or missing.
\<close>

record daily_record =
  date :: int
  rank :: "int option"
  release :: "pystr option"
  movie_url :: "pystr option"
  daily_gross :: pyfloat
  yd_change_pct :: pyfloat
  lw_change_pct :: pyfloat
  theaters :: "int option"
  per_theater_avg :: pyfloat
  to_date_gross :: pyfloat
  days_in_release :: "int option"

type_synonym dataframe = "daily_record list"

datatype py_error =
  UnboundLocalError | TypeError | KeyError | ValueError | FileNotFoundError
  | RequestException | HTTPError

text \<open>
  \<open>df[df['release'].str.contains(pat, case=False, na=False, regex=False)]\<close>:
  pandas compares \<open>pat.upper()\<close> with \<open>x.upper()\<close>; a missing \<open>release\<close> is no match.
\<close>

definition str_contains :: "pystr \<Rightarrow> pystr option \<Rightarrow> bool" where
  "str_contains pat x =
     (case x of None \<Rightarrow> False | Some s \<Rightarrow> str_in (py_upper pat) (py_upper s))"

definition title_rows :: "pystr \<Rightarrow> dataframe \<Rightarrow> dataframe" where
  "title_rows pat df = filter (\<lambda>r. str_contains pat (release r)) df"

text \<open>\<open>df[df['movie_url'] == u]\<close>\<close>

definition url_rows :: "pystr \<Rightarrow> dataframe \<Rightarrow> dataframe" where
  "url_rows u df = filter (\<lambda>r. movie_url r = Some u) df"

section \<open>\<open>aggregate_daily_features\<close> (enrich_with_daily_bom.py)\<close>

text \<open>
  The \<open>movie_url\<close> argument: \<open>None\<close> (the default), the float \<open>nan\<close> of an empty
  \<open>bom_url\<close> cell, or a string.
\<close>

datatype url_arg = PyNone | PyNaN | PyStr pystr

text \<open>
  Lines 176-177: \<open>if movie_url and pd.notna(movie_url): movie_data = ...\<close>. The result
  is the local variable \<open>movie_data\<close> if the branch assigned it. \<open>nan\<close> is truthy but
  not \<open>notna\<close>; the empty string is falsy.
\<close>

definition url_branch :: "dataframe \<Rightarrow> url_arg \<Rightarrow> dataframe option" where
  "url_branch daily_data u =
     (case u of PyStr s \<Rightarrow> if s \<noteq> [] then Some (url_rows s daily_data) else None
      | _ \<Rightarrow> None)"

text \<open>
  Lines 180-181: \<open>if movie_url is None or len(movie_data) == 0: movie_data = (title match)\<close>.
  Reading \<open>movie_data\<close> before any assignment raises \<open>UnboundLocalError\<close>.
\<close>

definition select_movie_data :: "dataframe \<Rightarrow> pystr \<Rightarrow> url_arg \<Rightarrow> py_error + dataframe" where
  "select_movie_data daily_data movie_title u =
     (if u = PyNone then Inr (title_rows movie_title daily_data)
      else case url_branch daily_data u of
             None \<Rightarrow> Inl UnboundLocalError
           | Some md \<Rightarrow>
               if length md = 0 then Inr (title_rows movie_title daily_data) else Inr md)"

text \<open>
  The values of the feature dictionary are numpy floats or \<open>None\<close>. Truthiness as the
  \<open>if\<close> statements of lines 234-253 use it: \<open>None\<close> and zero are falsy, \<open>nan\<close> is truthy.
\<close>

fun truthy :: "pyfloat option \<Rightarrow> bool" where
  "truthy None = False"
| "truthy (Some (Fin a)) = (a \<noteq> 0)"
| "truthy (Some _) = True"

text \<open>\<open>num / den if a and b and c > 0 else None\<close>, evaluated left to right.\<close>

definition guarded_ratio ::
  "pyfloat option \<Rightarrow> pyfloat option \<Rightarrow> pyfloat option \<Rightarrow> pyfloat \<Rightarrow> pyfloat \<Rightarrow> pyfloat option" where
  "guarded_ratio a b c num den =
     (if truthy a \<and> truthy b \<and> (case c of None \<Rightarrow> False | Some x \<Rightarrow> fless (Fin 0) x)
      then Some (fdiv num den) else None)"

text \<open>
  The feature dictionary of lines 189-253. The four standard-deviation entries
  (\<open>daily_theater_std\<close>, \<open>daily_gross_std\<close>, \<open>daily_per_theater_std\<close>,
  \<open>daily_yd_volatility\<close>) need a square root and are left out; sums and means are exact.
\<close>

record daily_features =
  daily_opening_theaters :: pyfloat
  daily_peak_theaters :: pyfloat
  daily_avg_theaters :: pyfloat
  daily_min_theaters :: pyfloat
  daily_opening_day_gross :: pyfloat
  daily_peak_gross :: pyfloat
  daily_avg_gross :: pyfloat
  daily_opening_per_theater :: pyfloat
  daily_peak_per_theater :: pyfloat
  daily_avg_per_theater :: pyfloat
  daily_avg_yd_change :: pyfloat
  daily_avg_lw_change :: pyfloat
  daily_max_yd_gain :: pyfloat
  daily_max_yd_drop :: pyfloat
  daily_opening_3day_gross :: "pyfloat option"
  daily_opening_3day_per_theater :: "pyfloat option"
  daily_week1_avg_gross :: "pyfloat option"
  daily_week2_avg_gross :: "pyfloat option"
  daily_week1_avg_theaters :: "pyfloat option"
  daily_days_tracked :: nat
  daily_max_days_in_release :: pyfloat
  daily_final_gross :: pyfloat
  daily_week2_week1_ratio :: "pyfloat option"
  daily_theater_expansion_ratio :: "pyfloat option"
  daily_opening_to_total_ratio :: "pyfloat option"
  daily_per_theater_decline_rate :: "pyfloat option"

text \<open>
  Lines 187-255, for the non-empty \<open>movie_data\<close> sorted by date: \<open>r0\<close> is
  \<open>iloc[0]\<close>, \<open>md\<close> the whole frame.
\<close>

definition daily_feature_dict :: "daily_record \<Rightarrow> dataframe \<Rightarrow> daily_features" where
  "daily_feature_dict r0 md =
     (let th = map (\<lambda>r. int_cell (theaters r)) md;
          dg = map daily_gross md;
          pt = map per_theater_avg md;
          yd = map yd_change_pct md;
          lw = map lw_change_pct md;
          opening_theaters = int_cell (theaters r0);
          peak_theaters = ser_max th;
          opening_per_theater = per_theater_avg r0;
          avg_per_theater = ser_mean pt;
          opening_3day = (if 3 \<le> length md then Some (ser_sum (take 3 dg)) else None);
          week1 = (if 7 \<le> length md then Some (ser_mean (take 7 dg)) else None);
          week2 = (if 14 \<le> length md then Some (ser_mean (take 7 (drop 7 dg))) else None);
          final_gross = to_date_gross (last md)
      in \<lparr> daily_opening_theaters = opening_theaters,
           daily_peak_theaters = peak_theaters,
           daily_avg_theaters = ser_mean th,
           daily_min_theaters = ser_min th,
           daily_opening_day_gross = daily_gross r0,
           daily_peak_gross = ser_max dg,
           daily_avg_gross = ser_mean dg,
           daily_opening_per_theater = opening_per_theater,
           daily_peak_per_theater = ser_max pt,
           daily_avg_per_theater = avg_per_theater,
           daily_avg_yd_change = ser_mean yd,
           daily_avg_lw_change = ser_mean lw,
           daily_max_yd_gain = ser_max yd,
           daily_max_yd_drop = ser_min yd,
           daily_opening_3day_gross = opening_3day,
           daily_opening_3day_per_theater =
             (if 3 \<le> length md then Some (ser_mean (take 3 pt)) else None),
           daily_week1_avg_gross = week1,
           daily_week2_avg_gross = week2,
           daily_week1_avg_theaters =
             (if 7 \<le> length md then Some (ser_mean (take 7 th)) else None),
           daily_days_tracked = length md,
           daily_max_days_in_release = ser_max (map (\<lambda>r. int_cell (days_in_release r)) md),
           daily_final_gross = final_gross,
           daily_week2_week1_ratio =
             (case (week1, week2) of
                (Some w1, Some w2) \<Rightarrow> guarded_ratio week1 week2 week2 w2 w1
              | _ \<Rightarrow> None),
           daily_theater_expansion_ratio =
             guarded_ratio (Some peak_theaters) (Some opening_theaters) (Some opening_theaters)
               peak_theaters opening_theaters,
           daily_opening_to_total_ratio =
             (case opening_3day of
                Some o3 \<Rightarrow> guarded_ratio opening_3day (Some final_gross) (Some final_gross)
                             o3 final_gross
              | None \<Rightarrow> None),
           daily_per_theater_decline_rate =
             guarded_ratio (Some opening_per_theater) (Some avg_per_theater)
               (Some opening_per_theater)
               (fdiv (fsub avg_per_theater opening_per_theater) opening_per_theater) (Fin 1) \<rparr>)"

text \<open>
  \<open>aggregate_daily_features(daily_data, movie_title, movie_url=None)\<close>. \<open>Inr None\<close> is
  the returned \<open>None\<close> of line 184, \<open>Inl\<close> an exception that leaves the function. The
  records are sorted by date; as in \<open>first_week\<close>, the order among records of one date is
  not part of the model.
\<close>

definition aggregate_daily_features ::
  "dataframe \<Rightarrow> pystr \<Rightarrow> url_arg \<Rightarrow> py_error + daily_features option" where
  "aggregate_daily_features daily_data movie_title u =
     (case select_movie_data daily_data movie_title u of
        Inl e \<Rightarrow> Inl e
      | Inr movie_data \<Rightarrow>
          if length movie_data = 0 then Inr None
          else (case sort_key date movie_data of
                  [] \<Rightarrow> Inr None
                | r0 # rest \<Rightarrow> Inr (Some (daily_feature_dict r0 (r0 # rest)))))"

section \<open>\<open>aggregate_movie_features\<close> (collect_year_batch.py)\<close>

text \<open>
  A row of the main dataset, with the columns the loop reads. \<open>release_date\<close> is the
  column after \<open>pd.to_datetime\<close> (a day number, or \<open>NaT\<close>); a cell read from the CSV
  may be missing.
\<close>

record movie =
  tmdb_id :: "int option"
  title :: "pystr option"
  release_date :: "int option"
  bom_url :: "pystr option"

record feature_row =
  row_tmdb_id :: "int option"
  row_title :: pystr
  opening_theaters :: pyfloat
  opening_gross :: pyfloat
  opening_per_theater :: pyfloat
  first_week_gross :: pyfloat
  first_week_avg_daily :: pyfloat
  first_week_days_tracked :: nat
  avg_yd_change :: pyfloat
  avg_lw_change :: pyfloat
  max_yd_gain :: pyfloat
  max_yd_drop :: pyfloat
  peak_theaters_week1 :: pyfloat
  min_theaters_week1 :: pyfloat

text \<open>
  Lines 229-232: \<open>days_since_release = (date - release_date).dt.days\<close> and
  \<open>between(0, 6)\<close>, which includes both ends; with \<open>NaT\<close> the difference is missing
  and \<open>between\<close> is false.
\<close>

definition days_since_release :: "int option \<Rightarrow> daily_record \<Rightarrow> int option" where
  "days_since_release rd r = (case rd of None \<Rightarrow> None | Some d \<Rightarrow> Some (date r - d))"

definition between :: "int \<Rightarrow> int \<Rightarrow> int option \<Rightarrow> bool" where
  "between lo hi v = (case v of None \<Rightarrow> False | Some x \<Rightarrow> lo \<le> x \<and> x \<le> hi)"

text \<open>
  Lines 219-232: the title match on \<open>title[:20]\<close>, the sort and the window. The sort
  of the model keeps the records of one date in their order; \<open>sort_values\<close> does not
  promise an order among them, so which of them comes first is not part of the model.
\<close>

definition movie_batch :: "dataframe \<Rightarrow> pystr \<Rightarrow> dataframe" where
  "movie_batch batch_df t = title_rows (take 20 t) batch_df"

definition first_week :: "dataframe \<Rightarrow> pystr \<Rightarrow> int option \<Rightarrow> dataframe" where
  "first_week batch_df t rd =
     filter (\<lambda>r. between 0 6 (days_since_release rd r))
       (sort_key date (movie_batch batch_df t))"

definition feature_dict :: "movie \<Rightarrow> pystr \<Rightarrow> daily_record \<Rightarrow> dataframe \<Rightarrow> feature_row" where
  "feature_dict m t r0 fw =
     \<lparr> row_tmdb_id = tmdb_id m,
       row_title = t,
       opening_theaters = int_cell (theaters r0),
       opening_gross = daily_gross r0,
       opening_per_theater = per_theater_avg r0,
       first_week_gross = ser_sum (map daily_gross fw),
       first_week_avg_daily = ser_mean (map daily_gross fw),
       first_week_days_tracked = length fw,
       avg_yd_change = ser_mean (map yd_change_pct fw),
       avg_lw_change = ser_mean (map lw_change_pct fw),
       max_yd_gain = ser_max (map yd_change_pct fw),
       max_yd_drop = ser_min (map yd_change_pct fw),
       peak_theaters_week1 = ser_max (map (\<lambda>r. int_cell (theaters r)) fw),
       min_theaters_week1 = ser_min (map (\<lambda>r. int_cell (theaters r)) fw) \<rparr>"

text \<open>
  The body of the loop for one movie: \<open>Inr None\<close> is a \<open>continue\<close>, \<open>Inr (Some row)\<close>
  an append to \<open>results\<close>. \<open>title[:20]\<close> on a missing title (a float) raises \<open>TypeError\<close>.
\<close>

definition movie_features :: "dataframe \<Rightarrow> movie \<Rightarrow> py_error + feature_row option" where
  "movie_features batch_df m =
     (if bom_url m = None then Inr None
      else case title m of
             None \<Rightarrow> Inl TypeError
           | Some t \<Rightarrow>
               if length (movie_batch batch_df t) = 0 then Inr None
               else (case first_week batch_df t (release_date m) of
                       [] \<Rightarrow> Inr None
                     | r0 # rest \<Rightarrow> Inr (Some (feature_dict m t r0 (r0 # rest)))))"

fun aggregate_movie_features :: "dataframe \<Rightarrow> movie list \<Rightarrow> py_error + feature_row list" where
  "aggregate_movie_features batch_df [] = Inr []"
| "aggregate_movie_features batch_df (m # ms) =
     (case movie_features batch_df m of
        Inl e \<Rightarrow> Inl e
      | Inr v \<Rightarrow>
          (case aggregate_movie_features batch_df ms of
             Inl e \<Rightarrow> Inl e
           | Inr rows \<Rightarrow> Inr (case v of None \<Rightarrow> rows | Some row \<Rightarrow> row # rows)))"

section \<open>Dataset merge (collect_all_years.py, scrape_individual_movies.py)\<close>

text \<open>
  A data frame of the main dataset: the names of its columns other than \<open>title\<close>, and
  its rows. A row is its \<open>title\<close> (the merge key, possibly missing) and its cells by
  column name; only the cells of the columns of the frame mean anything. A row of the new
  data (\<open>features_df\<close>, \<open>scraped_df\<close>) is its title and the values of the merged columns,
  which the new data always has.
\<close>

record frame =
  columns :: "string list"
  frame_rows :: "(pystr option \<times> (string \<Rightarrow> pyfloat)) list"

type_synonym new_row = "pystr option \<times> (string \<Rightarrow> pyfloat)"

text \<open>\<open>new.combine_first(old)\<close>, one element: the new value unless it is missing.\<close>

definition combine_first :: "pyfloat \<Rightarrow> pyfloat \<Rightarrow> pyfloat" where
  "combine_first new old = (if notna new then new else old)"

text \<open>
  \<open>df.merge(new[['title'] + cols], on='title', how='left', suffixes=('', '_new'))\<close>: a
  column that both frames have arrives under \<open>col_new\<close>, a column the main frame lacks
  under its own name. A main row is repeated for every new row with its title and gets
  missing values when there is none (pandas also pairs a missing title with a missing
  title).
\<close>

definition right_name :: "frame \<Rightarrow> string \<Rightarrow> string" where
  "right_name df c = (if c \<in> set (columns df) then c @ ''_new'' else c)"

fun merge_cells ::
  "(string \<Rightarrow> string) \<Rightarrow> string list \<Rightarrow> (string \<Rightarrow> pyfloat) \<Rightarrow> (string \<Rightarrow> pyfloat) \<Rightarrow> string \<Rightarrow> pyfloat"
where
  "merge_cells name [] new old = old"
| "merge_cells name (c # cols) new old = merge_cells name cols new (old(name c := new c))"

definition matched_values :: "pystr option \<Rightarrow> new_row list \<Rightarrow> (string \<Rightarrow> pyfloat) list" where
  "matched_values k feats =
     (case filter (\<lambda>f. fst f = k) feats of
        [] \<Rightarrow> [\<lambda>c. NaN]
      | ms \<Rightarrow> map snd ms)"

definition left_merge :: "string list \<Rightarrow> frame \<Rightarrow> new_row list \<Rightarrow> frame" where
  "left_merge cols df feats =
     \<lparr>columns = columns df @ map (right_name df) cols,
      frame_rows = concat (map (\<lambda>(k, old). map (\<lambda>new. (k, merge_cells (right_name df) cols new old))
                                      (matched_values k feats))
                         (frame_rows df))\<rparr>"

text \<open>
  One round of the loop \<open>for col in cols: if f'{col}_new' in df.columns: df[col] =
  df[f'{col}_new'].combine_first(df.get(col, pd.Series())); df.drop(columns=[f'{col}_new'])\<close>.
  The assignment puts a column that the frame lacks at the end; \<open>df.get\<close> gives an empty
  series for it, so that every old value is missing.
\<close>

definition update_column :: "string \<Rightarrow> frame \<Rightarrow> frame" where
  "update_column col df =
     (if col @ ''_new'' \<in> set (columns df)
      then \<lparr>columns = removeAll (col @ ''_new'')
                        (if col \<in> set (columns df) then columns df else columns df @ [col]),
            frame_rows = map (\<lambda>(k, m). (k, m(col := combine_first (m (col @ ''_new''))
                                              (if col \<in> set (columns df) then m col else NaN))))
                       (frame_rows df)\<rparr>
      else df)"

text \<open>The merge and the loop, which both scripts have, for a list of columns.\<close>

definition merge_and_update :: "string list \<Rightarrow> frame \<Rightarrow> new_row list \<Rightarrow> frame" where
  "merge_and_update cols df feats = fold update_column cols (left_merge cols df feats)"

text \<open>
  The column lists of collect_all_years.py (lines 134-137) and of
  scrape_individual_movies.py (lines 239-240).
\<close>

definition all_years_columns :: "string list" where
  "all_years_columns =
     [''opening_theaters'', ''opening_gross'', ''opening_per_theater'',
      ''first_week_gross'', ''first_week_avg_daily'', ''first_week_days_tracked'',
      ''avg_yd_change'', ''avg_lw_change'', ''max_yd_gain'', ''max_yd_drop'',
      ''peak_theaters_week1'', ''min_theaters_week1'']"

definition individual_columns :: "string list" where
  "individual_columns =
     [''first_week_gross'', ''opening_gross'', ''opening_theaters'',
      ''first_week_days_tracked'', ''peak_theaters_week1'']"

text \<open>
  collect_all_years.py, lines 122-140: the main dataset, just read from its file, is
  merged with \<open>features_df\<close> and updated.
\<close>

definition collect_all_years_update :: "frame \<Rightarrow> new_row list \<Rightarrow> frame" where
  "collect_all_years_update movies_df features_df =
     merge_and_update all_years_columns movies_df features_df"

text \<open>
  \<open>update_main_dataset\<close> of scrape_individual_movies.py. \<open>pd.read_csv\<close> raises
  \<open>FileNotFoundError\<close> when the main dataset is not there; line 227 reads the column
  \<open>first_week_gross\<close> of what was read and raises \<open>KeyError\<close> when it is not a column.
  The result is the frame that the function writes back.
\<close>

definition update_main_dataset :: "frame option \<Rightarrow> new_row list \<Rightarrow> py_error + frame" where
  "update_main_dataset main_csv scraped_df =
     (case main_csv of
        None \<Rightarrow> Inl FileNotFoundError
      | Some df_main \<Rightarrow>
          if ''first_week_gross'' \<in> set (columns df_main)
          then Inr (merge_and_update individual_columns df_main scraped_df)
          else Inl KeyError)"

section \<open>Reading numbers (\<open>float\<close>, \<open>int\<close> and the \<open>_parse_*\<close> helpers)\<close>

subsection \<open>The string methods\<close>

text \<open>
  \<open>str.strip()\<close> removes the white space of Unicode at both ends; these are the code
  points for which \<open>str.isspace\<close> holds.
\<close>

definition unicode_space :: "nat \<Rightarrow> bool" where
  "unicode_space c =
     (c \<in> set [9, 10, 11, 12, 13, 28, 29, 30, 31, 32, 133, 160, 5760, 8232, 8233, 8239, 8287, 12288]
      \<or> (8192 \<le> c \<and> c \<le> 8202))"

definition py_strip :: "pystr \<Rightarrow> pystr" where
  "py_strip s = rev (dropWhile unicode_space (rev (dropWhile unicode_space s)))"

text \<open>\<open>s.replace(ch, '')\<close> for a single character \<open>ch\<close>.\<close>

definition str_remove :: "nat \<Rightarrow> pystr \<Rightarrow> pystr" where
  "str_remove ch s = filter (\<lambda>c. c \<noteq> ch) s"

subsection \<open>\<open>float(str)\<close> and \<open>int(str)\<close>\<close>

text \<open>
  The first code point (the digit zero) of every run of ten decimal digits of Unicode
  14, the version of CPython 3.11. The table matters only to strings with digits outside
  ASCII, which \<open>float\<close> and \<open>int\<close> read as well.
\<close>

definition digit_zeros :: "nat list" where
  "digit_zeros =
     [48, 1632, 1776, 1984, 2406, 2534, 2662, 2790, 2918, 3046, 3174, 3302, 3430, 3558,
      3664, 3792, 3872, 4160, 4240, 6112, 6160, 6470, 6608, 6784, 6800, 6992, 7088, 7232,
      7248, 42528, 43216, 43264, 43472, 43504, 43600, 44016, 65296, 66720, 68912, 69734,
      69872, 69942, 70096, 70384, 70736, 70864, 71248, 71360, 71472, 71904, 72016, 72784,
      73040, 73120, 92768, 92864, 93008, 120782, 120792, 120802, 120812, 120822, 123200,
      123632, 125264, 130032]"

definition to_decimal :: "nat \<Rightarrow> nat option" where
  "to_decimal c =
     (case filter (\<lambda>z. z \<le> c \<and> c < z + 10) digit_zeros of [] \<Rightarrow> None | z # _ \<Rightarrow> Some (c - z))"

text \<open>
  Both constructors first bring the string to ASCII: a code point below 127 is kept,
  white space becomes a blank, a decimal digit becomes its ASCII digit, and at the first
  other code point the string ends with a question mark.
\<close>

fun transform_decimal_and_space :: "pystr \<Rightarrow> pystr" where
  "transform_decimal_and_space [] = []"
| "transform_decimal_and_space (c # cs) =
     (if c < 127 then c # transform_decimal_and_space cs
      else if unicode_space c then 32 # transform_decimal_and_space cs
      else (case to_decimal c of None \<Rightarrow> [63]
            | Some d \<Rightarrow> (48 + d) # transform_decimal_and_space cs))"

definition ascii_space :: "nat \<Rightarrow> bool" where
  "ascii_space c = (c = 32 \<or> (9 \<le> c \<and> c \<le> 13))"

definition ascii_strip :: "pystr \<Rightarrow> pystr" where
  "ascii_strip s = rev (dropWhile ascii_space (rev (dropWhile ascii_space s)))"

definition is_digit :: "nat \<Rightarrow> bool" where
  "is_digit c = (48 \<le> c \<and> c \<le> 57)"

definition digits_val :: "pystr \<Rightarrow> int" where
  "digits_val ds = foldl (\<lambda>a c. 10 * a + int (c - 48)) 0 ds"

text \<open>
  An underscore is accepted only between two digits; \<open>prev\<close> is the character before
  the rest of the string (0 at the start).
\<close>

fun underscores_ok :: "nat \<Rightarrow> pystr \<Rightarrow> bool" where
  "underscores_ok prev [] = (prev \<noteq> 95)"
| "underscores_ok prev (c # cs) =
     ((if c = 95 then is_digit prev else prev = 95 \<longrightarrow> is_digit c) \<and> underscores_ok c cs)"

text \<open>An optional sign: whether it is a minus, and the rest.\<close>

definition split_sign :: "pystr \<Rightarrow> bool \<times> pystr" where
  "split_sign s =
     (case s of [] \<Rightarrow> (False, [])
      | c # cs \<Rightarrow> if c = 45 then (True, cs) else if c = 43 then (False, cs) else (False, s))"

text \<open>
  \<open>int(s)\<close> in base 10: blanks around, an optional sign, then digits with single
  underscores between them, and not more than 4300 digits (the limit of CPython 3.11).
\<close>

definition py_int :: "pystr \<Rightarrow> py_error + int" where
  "py_int s =
     (let (neg, t) = split_sign (ascii_strip (transform_decimal_and_space s));
          ds = str_remove 95 t
      in if ds \<noteq> [] \<and> list_all is_digit ds \<and> underscores_ok 0 t \<and> length ds \<le> 4300
         then Inr (if neg then - digits_val ds else digits_val ds)
         else Inl ValueError)"

text \<open>Powers of two and ten with an integer exponent.\<close>

definition pow2 :: "int \<Rightarrow> rat" where
  "pow2 k = (if 0 \<le> k then 2 ^ nat k else 1 / 2 ^ nat (- k))"

definition pow10 :: "int \<Rightarrow> rat" where
  "pow10 k = (if 0 \<le> k then 10 ^ nat k else 1 / 10 ^ nat (- k))"

text \<open>
  The decimal literals of \<open>float\<close>: an optional sign, digits with an optional point (at
  least one digit before or after it), and an optional exponent \<open>e\<close> or \<open>E\<close> with an
  optional sign and at least one digit. The whole string has to be of this form; the
  result is the number written, as a rational.
\<close>

definition parse_exponent :: "pystr \<Rightarrow> int option" where
  "parse_exponent s =
     (case s of [] \<Rightarrow> Some 0
      | c # cs \<Rightarrow>
          if c = 101 \<or> c = 69
          then (let (neg, ds) = split_sign cs
                in if ds \<noteq> [] \<and> list_all is_digit ds
                   then Some (if neg then - digits_val ds else digits_val ds)
                   else None)
          else None)"

definition parse_decimal :: "pystr \<Rightarrow> rat option" where
  "parse_decimal s =
     (let (neg, t) = split_sign s;
          ip = takeWhile is_digit t;
          r1 = dropWhile is_digit t;
          (fp, r2) = (case r1 of [] \<Rightarrow> ([], [])
                      | c # cs \<Rightarrow> if c = 46 then (takeWhile is_digit cs, dropWhile is_digit cs)
                                 else ([], r1))
      in if ip = [] \<and> fp = [] then None
         else case parse_exponent r2 of None \<Rightarrow> None
              | Some ex \<Rightarrow>
                  Some ((if neg then - 1 else 1) * of_int (digits_val (ip @ fp))
                        * pow10 (ex - int (length fp))))"

definition lower_cp :: "nat \<Rightarrow> nat" where
  "lower_cp c = (if 65 \<le> c \<and> c \<le> 90 then c + 32 else c)"

text \<open>The other literals: \<open>inf\<close>, \<open>infinity\<close> and \<open>nan\<close> in any case, with an optional sign.\<close>

definition parse_inf_or_nan :: "pystr \<Rightarrow> pyfloat option" where
  "parse_inf_or_nan s =
     (let (neg, t) = split_sign s; l = map lower_cp t
      in if l = cps ''inf'' \<or> l = cps ''infinity'' then Some (if neg then NInf else PInf)
         else if l = cps ''nan'' then Some NaN
         else None)"

text \<open>
  The float64 nearest to a rational, ties to the even mantissa: 53 bits of mantissa,
  exponents down to the subnormal numbers, an infinity from \<open>2 ^ 1024\<close> on. (The two
  zeros are not distinguished.)
\<close>

definition round_half_even :: "rat \<Rightarrow> int" where
  "round_half_even x =
     (let f = \<lfloor>x\<rfloor>; r = x - of_int f
      in if r < 1 / 2 then f else if 1 / 2 < r then f + 1 else if even f then f else f + 1)"

definition floor_log2 :: "rat \<Rightarrow> int" where
  "floor_log2 x =
     (let (n, d) = quotient_of x; k = bitlen n - bitlen d
      in if pow2 k \<le> x then k else k - 1)"

definition round_double :: "rat \<Rightarrow> pyfloat" where
  "round_double x =
     (if x = 0 then Fin 0
      else let e = max (floor_log2 \<bar>x\<bar> - 52) (- 1074);
               m = round_half_even (\<bar>x\<bar> / pow2 e);
               y = of_int m * pow2 e
           in if pow2 1024 \<le> y then (if 0 < x then PInf else NInf)
              else Fin (sgn x * y))"

text \<open>
  \<open>float(s)\<close>: the string is brought to ASCII, the underscores are checked and removed,
  the blanks around are dropped, and what is left has to be a literal.
\<close>

definition py_float :: "pystr \<Rightarrow> py_error + pyfloat" where
  "py_float s =
     (let a = transform_decimal_and_space s
      in if \<not> underscores_ok 0 a then Inl ValueError
         else let u = ascii_strip (str_remove 95 a)
              in case parse_decimal u of Some q \<Rightarrow> Inr (round_double q)
                 | None \<Rightarrow> (case parse_inf_or_nan u of Some v \<Rightarrow> Inr v
                            | None \<Rightarrow> Inl ValueError))"

subsection \<open>\<open>_parse_money\<close>, \<open>_parse_percent\<close>, \<open>_parse_int\<close>\<close>

text \<open>
  \<open>text.strip().replace('$', '').replace(',', '')\<close>, then
  \<open>float(text) if text and text != '-' else None\<close>, inside \<open>try\<close> with
  \<open>except: return None\<close> (collect_year_batch.py). The argument is the text of a table
  cell, a \<open>str\<close>.
\<close>

definition money_text :: "pystr \<Rightarrow> pystr" where
  "money_text text = str_remove 44 (str_remove 36 (py_strip text))"

definition parse_money :: "pystr \<Rightarrow> pyfloat option" where
  "parse_money text =
     (let t = money_text text
      in case (if t \<noteq> [] \<and> t \<noteq> cps ''-'' then map_sum id Some (py_float t) else Inr None) of
           Inl e \<Rightarrow> None
         | Inr v \<Rightarrow> v)"

text \<open>
  The same helper in enrich_with_daily_bom.py:
  \<open>if not text or text == '-': return None\<close>, then \<open>return float(text)\<close>.
\<close>

definition bom_parse_money :: "pystr \<Rightarrow> pyfloat option" where
  "bom_parse_money text =
     (let t = money_text text
      in case (if t = [] \<or> t = cps ''-'' then Inr None else map_sum id Some (py_float t)) of
           Inl e \<Rightarrow> None
         | Inr v \<Rightarrow> v)"

text \<open>\<open>text.strip().replace('%', '').replace('+', '')\<close>; \<open>n/a\<close> is a third empty form.\<close>

definition percent_text :: "pystr \<Rightarrow> pystr" where
  "percent_text text = str_remove 43 (str_remove 37 (py_strip text))"

definition parse_percent :: "pystr \<Rightarrow> pyfloat option" where
  "parse_percent text =
     (let t = percent_text text
      in case (if t \<noteq> [] \<and> t \<noteq> cps ''-'' \<and> t \<noteq> cps ''n/a''
               then map_sum id Some (py_float t) else Inr None) of
           Inl e \<Rightarrow> None
         | Inr v \<Rightarrow> v)"

definition bom_parse_percent :: "pystr \<Rightarrow> pyfloat option" where
  "bom_parse_percent text =
     (let t = percent_text text
      in case (if t = [] \<or> t = cps ''-'' \<or> t = cps ''n/a''
               then Inr None else map_sum id Some (py_float t)) of
           Inl e \<Rightarrow> None
         | Inr v \<Rightarrow> v)"

text \<open>\<open>text.strip().replace(',', '')\<close>, then \<open>int(text)\<close> unless empty or a dash.\<close>

definition parse_int :: "pystr \<Rightarrow> int option" where
  "parse_int text =
     (let t = str_remove 44 (py_strip text)
      in case (if t \<noteq> [] \<and> t \<noteq> cps ''-'' then map_sum id Some (py_int t) else Inr None) of
           Inl e \<Rightarrow> None
         | Inr v \<Rightarrow> v)"

text \<open>
  The format \<open>f"${x:,.0f}"\<close> with which the scripts print a gross
  (scrape_individual_movies.py line 170, collect_all_years.py lines 157-160): the
  value rounded to an integer, ties to even, its digits in groups of three.
\<close>

function digits_of :: "nat \<Rightarrow> pystr" where
  "digits_of n = (if n < 10 then [48 + n] else digits_of (n div 10) @ [48 + n mod 10])"
  by pat_completeness auto
termination
  by (relation "measure id") auto

fun group3 :: "pystr \<Rightarrow> pystr" where
  "group3 ds = (if length ds \<le> 3 then ds
                else group3 (take (length ds - 3) ds) @ 44 # drop (length ds - 3) ds)"

definition format_money :: "pyfloat \<Rightarrow> pystr" where
  "format_money x =
     36 # (case x of
             Fin q \<Rightarrow> (if q < 0 then [45] else []) @ group3 (digits_of (nat \<bar>round_half_even q\<bar>))
           | PInf \<Rightarrow> cps ''inf''
           | NInf \<Rightarrow> cps ''-inf''
           | NaN \<Rightarrow> cps ''nan'')"

declare digits_of.simps [simp del]

declare group3.simps [simp del]

section \<open>The daily listing (\<open>scrape_daily_data\<close>)\<close>

text \<open>
  What the site gives for a date. \<open>requests.get\<close> raises, or there is a response with a
  status code and a body. Of the body only what BeautifulSoup makes of it matters: the
  parser raises, or the document has no \<open>table\<close>, or the first table has rows; a row is
  the list of its \<open>td\<close> cells. A cell is its text and its first link, if it has one; the
  link is its \<open>href\<close> attribute, if it has one. A date is its day number.
\<close>

record td =
  td_text :: pystr
  td_link :: "pystr option option"

record response =
  status_code :: nat
  soup :: "py_error + td list list option"

type_synonym web = "int \<Rightarrow> py_error + response"

definition base_url :: pystr where
  "base_url = cps ''https://www.boxofficemojo.com''"

text \<open>A float column holds \<open>NaN\<close> where the parser returned \<open>None\<close>.\<close>

definition float_cell :: "pyfloat option \<Rightarrow> pyfloat" where
  "float_cell v = (case v of None \<Rightarrow> NaN | Some x \<Rightarrow> x)"

text \<open>
  The dictionary of one row with at least nine cells. \<open>movie_link['href']\<close> raises
  \<open>KeyError\<close> for a link without that attribute; an empty \<open>href\<close> counts as none. The
  parsers of the cells do not raise. (The column \<open>distributor\<close>, which only
  enrich_with_daily_bom.py adds and no aggregation reads, is left out.)
\<close>

definition row_data :: "int \<Rightarrow> td list \<Rightarrow> py_error + daily_record" where
  "row_data date_str cols =
     (case td_link (cols ! 2) of
        Some None \<Rightarrow> Inl KeyError
      | movie_link \<Rightarrow>
          Inr \<lparr>date = date_str,
               rank = parse_int (td_text (cols ! 0)),
               release = Some (py_strip (td_text (cols ! 2))),
               movie_url = (case movie_link of
                              Some (Some href) \<Rightarrow> if href \<noteq> [] then Some (base_url @ href) else None
                            | _ \<Rightarrow> None),
               daily_gross = float_cell (parse_money (td_text (cols ! 3))),
               yd_change_pct = float_cell (parse_percent (td_text (cols ! 4))),
               lw_change_pct = float_cell (parse_percent (td_text (cols ! 5))),
               theaters = parse_int (td_text (cols ! 6)),
               per_theater_avg = float_cell (parse_money (td_text (cols ! 7))),
               to_date_gross = float_cell (parse_money (td_text (cols ! 8))),
               days_in_release = (if 9 < length cols then parse_int (td_text (cols ! 9)) else None)\<rparr>)"

text \<open>The loop over the rows; a row with fewer than nine cells is skipped.\<close>

fun table_rows :: "int \<Rightarrow> td list list \<Rightarrow> py_error + dataframe" where
  "table_rows date_str [] = Inr []"
| "table_rows date_str (cols # trs) =
     (if 9 \<le> length cols
      then (case row_data date_str cols of
              Inl e \<Rightarrow> Inl e
            | Inr r \<Rightarrow> map_sum id (\<lambda>rows. r # rows) (table_rows date_str trs))
      else table_rows date_str trs)"

text \<open>
  The body of the \<open>try\<close> block. \<open>raise_for_status\<close> raises \<open>HTTPError\<close> for the status
  codes 400 to 599 and for no other; the first row of the table is the header.
\<close>

definition scrape_body :: "web \<Rightarrow> int \<Rightarrow> py_error + dataframe option" where
  "scrape_body get date_str =
     (case get date_str of
        Inl e \<Rightarrow> Inl e
      | Inr r \<Rightarrow>
          if 400 \<le> status_code r \<and> status_code r < 600 then Inl HTTPError
          else (case soup r of
                  Inl e \<Rightarrow> Inl e
                | Inr None \<Rightarrow> Inr None
                | Inr (Some trs) \<Rightarrow>
                    (case table_rows date_str (drop 1 trs) of
                       Inl e \<Rightarrow> Inl e
                     | Inr rows \<Rightarrow> Inr (if rows \<noteq> [] then Some rows else None))))"

text \<open>
  \<open>scrape_daily_data\<close> of collect_year_batch.py: the body inside \<open>try\<close>, and
  \<open>except: return None\<close>. The result is a value of Python like any other, an error or
  what is returned.
\<close>

definition scrape_daily_data :: "web \<Rightarrow> int \<Rightarrow> py_error + dataframe option" where
  "scrape_daily_data get date_str =
     (case scrape_body get date_str of Inl e \<Rightarrow> Inr None | Inr v \<Rightarrow> Inr v)"

text \<open>
  \<open>scrape_daily_data\<close> of enrich_with_daily_bom.py: \<open>except Exception as e\<close> prints the
  error, and \<open>return None\<close> follows the \<open>try\<close> statement. Every error of the model is an
  \<open>Exception\<close>; an interrupt from the keyboard, which this handler lets pass, is not part
  of the model.
\<close>

definition bom_scrape_daily_data :: "web \<Rightarrow> int \<Rightarrow> py_error + dataframe option" where
  "bom_scrape_daily_data get date_str =
     (case scrape_body get date_str of
        Inl e \<Rightarrow> Inr None
      | Inr (Some rows) \<Rightarrow> Inr (Some rows)
      | Inr None \<Rightarrow> Inr None)"

section \<open>The collectors (\<open>collect_year_batch\<close>, \<open>scrape_date_range\<close>)\<close>

text \<open>
  What a run does to the world, in order: it fetches the page of a date, it sleeps, it
  writes the batch of a year to \<open>data/processed/bom_<year>_batch.csv\<close>. A run that is
  interrupted has done a prefix of its events.
\<close>

datatype event = Fetch int | Sleep | ToCsv int dataframe

definition fetched :: "event list \<Rightarrow> int list" where
  "fetched es = concat (map (\<lambda>e. case e of Fetch d \<Rightarrow> [d] | _ \<Rightarrow> []) es)"

definition written :: "event list \<Rightarrow> (int \<times> dataframe) list" where
  "written es = concat (map (\<lambda>e. case e of ToCsv y df \<Rightarrow> [(y, df)] | _ \<Rightarrow> []) es)"

text \<open>
  The loop of \<open>collect_year_batch\<close> over the dates of the strategy, with the events so
  far and \<open>all_data\<close>.
\<close>

fun batch_loop ::
  "web \<Rightarrow> int list \<Rightarrow> event list \<Rightarrow> dataframe list \<Rightarrow> event list \<times> (py_error + dataframe list)"
where
  "batch_loop get [] es all_data = (es, Inr all_data)"
| "batch_loop get (date_str # dates) es all_data =
     (case scrape_daily_data get date_str of
        Inl e \<Rightarrow> (es @ [Fetch date_str], Inl e)
      | Inr daily_df \<Rightarrow>
          batch_loop get dates (es @ [Fetch date_str, Sleep])
            (case daily_df of Some df \<Rightarrow> all_data @ [df] | None \<Rightarrow> all_data))"

text \<open>
  \<open>collect_year_batch\<close>, given the dates that the strategy generates for the year: the
  loop, then one \<open>to_csv\<close> of the concatenation if anything was collected. The function
  reads no file.
\<close>

definition collect_year_batch ::
  "web \<Rightarrow> int \<Rightarrow> int list \<Rightarrow> event list \<times> (py_error + dataframe option)"
where
  "collect_year_batch get year dates =
     (case batch_loop get dates [] [] of
        (es, Inl e) \<Rightarrow> (es, Inl e)
      | (es, Inr all_data) \<Rightarrow>
          if all_data \<noteq> []
          then (es @ [ToCsv year (concat all_data)], Inr (Some (concat all_data)))
          else (es, Inr None))"

text \<open>
  The loop of \<open>scrape_date_range\<close>: \<open>while current <= end\<close>, left when \<open>max_days\<close> is
  given, not zero, and reached.
\<close>

function range_loop ::
  "web \<Rightarrow> int \<Rightarrow> int \<Rightarrow> int option \<Rightarrow> int \<Rightarrow> event list \<Rightarrow> dataframe list
   \<Rightarrow> event list \<times> (py_error + dataframe list)"
where
  "range_loop get current end_day max_days days_scraped es all_data =
     (if current \<le> end_day \<and> \<not> (case max_days of None \<Rightarrow> False
                                        | Some m \<Rightarrow> m \<noteq> 0 \<and> m \<le> days_scraped)
      then (case bom_scrape_daily_data get current of
              Inl e \<Rightarrow> (es @ [Fetch current], Inl e)
            | Inr df \<Rightarrow>
                range_loop get (current + 1) end_day max_days (days_scraped + 1)
                  (es @ [Fetch current, Sleep])
                  (case df of Some d \<Rightarrow> all_data @ [d] | None \<Rightarrow> all_data))
      else (es, Inr all_data))"
  by pat_completeness auto
termination
  by (relation "measure (\<lambda>(get, current, end_day, rest). nat (end_day + 1 - current))") auto

declare range_loop.simps [simp del]

text \<open>\<open>scrape_date_range\<close>: the loop, then the concatenation; nothing is written.\<close>

definition scrape_date_range ::
  "web \<Rightarrow> int \<Rightarrow> int \<Rightarrow> int option \<Rightarrow> event list \<times> (py_error + dataframe option)"
where
  "scrape_date_range get start end_day max_days =
     (case range_loop get start end_day max_days 0 [] [] of
        (es, Inl e) \<Rightarrow> (es, Inl e)
      | (es, Inr all_data) \<Rightarrow>
          (es, Inr (if all_data \<noteq> [] then Some (concat all_data) else None)))"

text \<open>
  For the statements: the data frames of the dates that have data, in the order of the
  dates.
\<close>

definition day_frames :: "web \<Rightarrow> int list \<Rightarrow> dataframe list" where
  "day_frames get dates =
     concat (map (\<lambda>d. case scrape_daily_data get d of Inr (Some df) \<Rightarrow> [df] | _ \<Rightarrow> []) dates)"

section \<open>Example data\<close>

text \<open>
  Rows used in the examples below: a daily record with a date, a title and a URL whose
  figures are all missing, and a row of the main dataset with a title, a release date
  and a \<open>bom_url\<close>.
\<close>

definition sample_record :: "int \<Rightarrow> string \<Rightarrow> string \<Rightarrow> daily_record" where
  "sample_record d rel u =
     \<lparr> date = d, rank = None, release = Some (cps rel), movie_url = Some (cps u),
       daily_gross = NaN, yd_change_pct = NaN, lw_change_pct = NaN, theaters = None,
       per_theater_avg = NaN, to_date_gross = NaN, days_in_release = None \<rparr>"

definition sample_movie :: "string \<Rightarrow> int \<Rightarrow> string \<Rightarrow> movie" where
  "sample_movie t d u =
     \<lparr> tmdb_id = Some 1, title = Some (cps t), release_date = Some d, bom_url = Some (cps u) \<rparr>"

text \<open>
  A page with a header row and one row of nine cells, answered with a given status code
  for every date.
\<close>

definition sample_cells :: "td list" where
  "sample_cells =
     map (\<lambda>s. \<lparr>td_text = cps s, td_link = None\<rparr>)
       [''1'', ''-'', ''Test Movie'', ''$1,000'', ''-'', ''+5.0%'', ''10'', ''$100'', ''$1,000'']"

definition sample_web :: "nat \<Rightarrow> web" where
  "sample_web st = (\<lambda>d. Inr \<lparr>status_code = st, soup = Inr (Some [[], sample_cells])\<rparr>)"

text \<open>
  A main dataset of four movies with the columns \<open>first_week_gross\<close> and \<open>budget\<close>, and
  new data for three of them: a missing value for A, 250 for B (which had none) and for
  C (which had 100).
\<close>

definition sample_cells_of :: "pyfloat \<Rightarrow> string \<Rightarrow> pyfloat" where
  "sample_cells_of v = (\<lambda>c. NaN)(''first_week_gross'' := v)"

definition sample_frame :: frame where
  "sample_frame =
     \<lparr>columns = [''first_week_gross'', ''budget''],
      frame_rows = [(Some (cps ''A''), sample_cells_of (Fin 100)),
                    (Some (cps ''B''), sample_cells_of NaN),
                    (Some (cps ''C''), sample_cells_of (Fin 100)),
                    (Some (cps ''D''), sample_cells_of (Fin 7))]\<rparr>"

definition sample_new :: "new_row list" where
  "sample_new =
     [(Some (cps ''A''), \<lambda>c. NaN), (Some (cps ''B''), \<lambda>c. Fin 250), (Some (cps ''C''), \<lambda>c. Fin 250)]"

section \<open>Properties\<close>

lemma sr_simps:
  "date (sample_record d rel u) = d"
  "release (sample_record d rel u) = Some (cps rel)"
  "movie_url (sample_record d rel u) = Some (cps u)"
  by (simp_all add: sample_record_def)

lemma sm_simps:
  "title (sample_movie t d u) = Some (cps t)"
  "release_date (sample_movie t d u) = Some d"
  "bom_url (sample_movie t d u) = Some (cps u)"
  by (simp_all add: sample_movie_def)

lemma str_in_iff: "str_in p x \<longleftrightarrow> (\<exists>a b. x = a @ p @ b)"
proof (induction x)
  case Nil
  then show ?case by auto
next
  case (Cons c cs)
  show ?case
  proof
    assume "str_in p (c # cs)"
    then consider "prefix p (c # cs)" | "str_in p cs" by auto
    then show "\<exists>a b. c # cs = a @ p @ b"
    proof cases
      case 1
      then obtain b where "c # cs = p @ b" by (auto simp: prefix_def)
      then have "c # cs = [] @ p @ b" by simp
      then show ?thesis by blast
    next
      case 2
      with Cons obtain a b where "cs = a @ p @ b" by auto
      then have "c # cs = (c # a) @ p @ b" by simp
      then show ?thesis by blast
    qed
  next
    assume "\<exists>a b. c # cs = a @ p @ b"
    then obtain a b where ab: "c # cs = a @ p @ b" by blast
    show "str_in p (c # cs)"
    proof (cases a)
      case Nil
      with ab have "prefix p (c # cs)" by (simp add: prefix_def)
      then show ?thesis by simp
    next
      case (Cons a0 as)
      with ab have "cs = as @ p @ b" by simp
      with Cons.IH show ?thesis by auto
    qed
  qed
qed


lemma movie_features_skip:
  assumes "title m = Some t" "first_week batch_df t (release_date m) = []"
  shows "movie_features batch_df m = Inr None"
  using assms by (simp add: movie_features_def)

lemma aggregate_skip:
  assumes "movie_features batch_df m = Inr None"
  shows "aggregate_movie_features batch_df (ms1 @ m # ms2) = aggregate_movie_features batch_df (ms1 @ ms2)"
  using assms by (induction ms1) (auto split: sum.splits option.splits)

subsection \<open>The first-week window\<close>




subsection \<open>No record, no row\<close>

text \<open>
  C3 (as amended). In \<open>aggregate_movie_features\<close> a movie for which no daily record is
  left after matching and windowing gets no feature row: the loop body takes the
  \<open>continue\<close>, and the output is the one the function gives without that movie in the
  dataset. \<open>aggregate_daily_features\<close> has no window: it returns \<open>None\<close> exactly when no
  record matched.
\<close>

theorem no_records_no_row:
  "(title m = Some t \<and> first_week batch_df t (release_date m) = [] \<longrightarrow>
      movie_features batch_df m = Inr None
      \<and> aggregate_movie_features batch_df (ms1 @ m # ms2)
          = aggregate_movie_features batch_df (ms1 @ ms2))
   \<and> (aggregate_daily_features daily_data movie_title u = Inr None
        \<longleftrightarrow> select_movie_data daily_data movie_title u = Inr [])"
proof -
  have 1: "title m = Some t \<and> first_week batch_df t (release_date m) = [] \<longrightarrow>
      movie_features batch_df m = Inr None
      \<and> aggregate_movie_features batch_df (ms1 @ m # ms2)
          = aggregate_movie_features batch_df (ms1 @ ms2)"
    by (auto simp: movie_features_skip aggregate_skip)
  have 2: "aggregate_daily_features daily_data movie_title u = Inr None
      \<longleftrightarrow> select_movie_data daily_data movie_title u = Inr []"
  proof (cases "select_movie_data daily_data movie_title u")
    case (Inl e)
    then show ?thesis by (simp add: aggregate_daily_features_def)
  next
    case (Inr movie_data)
    show ?thesis
    proof (cases movie_data)
      case Nil
      with Inr show ?thesis by (simp add: aggregate_daily_features_def)
    next
      case (Cons r rs)
      then have "length (sort_key date movie_data) \<noteq> 0" by simp
      then obtain r0 rest where "sort_key date movie_data = r0 # rest"
        by (cases "sort_key date movie_data") simp_all
      with Inr Cons show ?thesis by (simp add: aggregate_daily_features_def)
    qed
  qed
  from 1 2 show ?thesis ..
qed

text \<open>
  A movie released on day 100 whose only record is of day 107, and a title that no
  record contains.
\<close>

theorem no_records_no_row_witness:
  "aggregate_movie_features [sample_record 107 ''Test Movie'' ''u'']
      [sample_movie ''Test Movie'' 100 ''u''] = Inr []
   \<and> aggregate_daily_features [sample_record 107 ''Test Movie'' ''u'']
        (cps ''Other'') PyNone = Inr None"
  using no_records_no_row [of "sample_movie ''Test Movie'' 100 ''u''" "cps ''Test Movie''"
      "[sample_record 107 ''Test Movie'' ''u'']" "[]" "[]"
      "[sample_record 107 ''Test Movie'' ''u'']" "cps ''Other''" PyNone]
  by (simp add: sm_simps sr_simps first_week_def movie_batch_def title_rows_def
      str_contains_def between_def days_since_release_def select_movie_data_def
      cps_def py_upper_def upper_cp_def)

text \<open>
  The same movie in \<open>aggregate_daily_features\<close>, called with its URL as the enrichment
  does: no record is in the first week of the movie, and the function returns a row made
  of the record of day 107.
\<close>

theorem daily_row_outside_first_week:
  "first_week [sample_record 107 ''Test Movie'' ''u''] (cps ''Test Movie'') (Some 100) = []
   \<and> map_sum id (map_option daily_days_tracked)
       (aggregate_daily_features [sample_record 107 ''Test Movie'' ''u'']
          (cps ''Test Movie'') (PyStr (cps ''u''))) = Inr (Some 1)"
  by (simp add: first_week_def movie_batch_def title_rows_def str_contains_def between_def
      days_since_release_def aggregate_daily_features_def select_movie_data_def url_branch_def
      url_rows_def sr_simps cps_def py_upper_def upper_cp_def daily_feature_dict_def Let_def)

subsection \<open>Matching by title\<close>

text \<open>
  C5 (as amended). \<open>aggregate_movie_features\<close> selects exactly the daily records whose
  title, in upper case, contains the first 20 characters of the target title, in upper
  case. \<open>aggregate_daily_features\<close> matches by title when it is called without a URL
  or with a URL that no record has; it then selects exactly the records whose title, in
  upper case, contains the whole target title, in upper case.
\<close>

theorem title_match_twenty_chars:
  "(r \<in> set (movie_batch batch_df t) \<longleftrightarrow>
      r \<in> set batch_df \<and>
      (\<exists>s a b. release r = Some s \<and> py_upper s = a @ py_upper (take 20 t) @ b))
   \<and> (u = PyNone \<or> (\<exists>s. u = PyStr s \<and> s \<noteq> [] \<and> url_rows s daily_data = []) \<longrightarrow>
        select_movie_data daily_data movie_title u = Inr (title_rows movie_title daily_data))
   \<and> (r \<in> set (title_rows movie_title daily_data) \<longleftrightarrow>
      r \<in> set daily_data \<and>
      (\<exists>s a b. release r = Some s \<and> py_upper s = a @ py_upper movie_title @ b))"
proof -
  have 1: "r \<in> set (movie_batch batch_df t) \<longleftrightarrow>
      r \<in> set batch_df \<and>
      (\<exists>s a b. release r = Some s \<and> py_upper s = a @ py_upper (take 20 t) @ b)"
    by (auto simp: movie_batch_def title_rows_def str_contains_def str_in_iff
        split: option.splits)
  have 2: "u = PyNone \<or> (\<exists>s. u = PyStr s \<and> s \<noteq> [] \<and> url_rows s daily_data = []) \<longrightarrow>
      select_movie_data daily_data movie_title u = Inr (title_rows movie_title daily_data)"
    by (auto simp: select_movie_data_def url_branch_def)
  have 3: "r \<in> set (title_rows movie_title daily_data) \<longleftrightarrow>
      r \<in> set daily_data \<and>
      (\<exists>s a b. release r = Some s \<and> py_upper s = a @ py_upper movie_title @ b)"
    by (auto simp: title_rows_def str_contains_def str_in_iff split: option.splits)
  from 1 2 3 show ?thesis
    by (intro conjI)
qed

text \<open>
  A record matched on the first 20 characters of a longer title, and a URL that no
  record has.
\<close>

theorem title_match_twenty_chars_witness:
  "(\<exists>s a b. release (sample_record 100 ''Mission: Impossible - Dead Reckoning'' ''u'') = Some s
      \<and> py_upper s = a @ py_upper (take 20 (cps ''Mission: Impossible - Fallout'')) @ b)
   \<and> select_movie_data [sample_record 100 ''Mission: Impossible - Dead Reckoning'' ''u'']
        (cps ''Mission'') (PyStr (cps ''x''))
      = Inr (title_rows (cps ''Mission'')
               [sample_record 100 ''Mission: Impossible - Dead Reckoning'' ''u''])"
proof -
  have a: "sample_record 100 ''Mission: Impossible - Dead Reckoning'' ''u''
     \<in> set (movie_batch [sample_record 100 ''Mission: Impossible - Dead Reckoning'' ''u'']
              (cps ''Mission: Impossible - Fallout''))"
    by (simp add: movie_batch_def title_rows_def str_contains_def sr_simps cps_def
        py_upper_def upper_cp_def)
  have b: "cps ''x'' \<noteq> []
      \<and> url_rows (cps ''x'') [sample_record 100 ''Mission: Impossible - Dead Reckoning'' ''u''] = []"
    by (simp add: url_rows_def sr_simps cps_def)
  from a b show ?thesis
    using title_match_twenty_chars [of
        "sample_record 100 ''Mission: Impossible - Dead Reckoning'' ''u''"
        "[sample_record 100 ''Mission: Impossible - Dead Reckoning'' ''u'']"
        "cps ''Mission: Impossible - Fallout''"
        "PyStr (cps ''x'')"
        "[sample_record 100 ''Mission: Impossible - Dead Reckoning'' ''u'']"
        "cps ''Mission''"]
    by blast
qed

text \<open>
  The record of another film is selected for the target ``Mission: Impossible - Fallout'',
  although its title does not contain the target title.
\<close>

theorem truncated_title_counterexample:
  "sample_record 100 ''Mission: Impossible - Dead Reckoning'' ''u''
     \<in> set (movie_batch [sample_record 100 ''Mission: Impossible - Dead Reckoning'' ''u'']
              (cps ''Mission: Impossible - Fallout''))
   \<and> \<not> str_contains (cps ''Mission: Impossible - Fallout'')
         (release (sample_record 100 ''Mission: Impossible - Dead Reckoning'' ''u''))"
  by (simp add: movie_batch_def title_rows_def str_contains_def sr_simps cps_def
      py_upper_def upper_cp_def)

text \<open>
  Upper case is that of Unicode: the title \<open>stra\<close>, U+00DF, \<open>e\<close> selects the record of
  \<open>STRASSE\<close>.
\<close>

lemma sharp_s_title_example:
  "py_upper [115, 116, 114, 97, 223, 101] = cps ''STRASSE''
   \<and> movie_batch [sample_record 100 ''STRASSE'' ''u''] [115, 116, 114, 97, 223, 101]
       = [sample_record 100 ''STRASSE'' ''u'']"
  by (simp add: movie_batch_def title_rows_def str_contains_def sr_simps cps_def
      py_upper_def upper_cp_def upper_special_def)

subsection \<open>Matching by URL\<close>

text \<open>
  \<open>aggregate_daily_features\<close> does prefer the URL: with a URL (a string that is not
  empty) it takes the records with that URL, and it falls back to the title only when
  there is none.
\<close>

lemma select_movie_data_url:
  "u \<noteq> [] \<Longrightarrow>
   select_movie_data daily_data movie_title (PyStr u) =
     Inr (if url_rows u daily_data = [] then title_rows movie_title daily_data
          else url_rows u daily_data)"
  by (simp add: select_movie_data_def url_branch_def)

text \<open>
  C6. \<open>aggregate_movie_features\<close> never compares URLs. For the movie ``It'' with a known
  URL and a batch that holds a record of ``It'' with that URL and a record of
  ``It Chapter Two'' with another URL, it selects both records by title and builds the
  row from both, where the URL match (the one \<open>aggregate_daily_features\<close> makes) selects
  the first record only.
\<close>

theorem movie_batch_ignores_url:
  "movie_batch [sample_record 100 ''It'' ''/release/rl1/'',
                sample_record 100 ''It Chapter Two'' ''/release/rl2/''] (cps ''It'')
     = [sample_record 100 ''It'' ''/release/rl1/'',
        sample_record 100 ''It Chapter Two'' ''/release/rl2/'']
   \<and> url_rows (cps ''/release/rl1/'')
       [sample_record 100 ''It'' ''/release/rl1/'',
        sample_record 100 ''It Chapter Two'' ''/release/rl2/'']
     = [sample_record 100 ''It'' ''/release/rl1/'']
   \<and> map_sum id (map_option first_week_days_tracked)
       (movie_features [sample_record 100 ''It'' ''/release/rl1/'',
                        sample_record 100 ''It Chapter Two'' ''/release/rl2/'']
          (sample_movie ''It'' 100 ''/release/rl1/'')) = Inr (Some 2)"
  by (simp add: movie_batch_def title_rows_def url_rows_def str_contains_def sr_simps sm_simps
      movie_features_def first_week_def between_def days_since_release_def feature_dict_def
      cps_def py_upper_def upper_cp_def)

subsection \<open>The dataset merge\<close>

lemma merge_cells_other:
  "\<forall>c'\<in>set cols. name c' \<noteq> x \<Longrightarrow> merge_cells name cols new old x = old x"
  by (induction cols arbitrary: old) auto

lemma merge_cells_hit:
  "c \<in> set cols \<Longrightarrow> \<forall>c'\<in>set cols. name c' = name c \<longrightarrow> new c' = new c \<Longrightarrow>
   merge_cells name cols new old (name c) = new c"
proof (induction cols arbitrary: old c)
  case Nil
  then show ?case by simp
next
  case (Cons a cs)
  from Cons.prems(2) have r: "\<forall>c'\<in>set cs. name c' = name c \<longrightarrow> new c' = new c"
    by simp
  show ?case
  proof (cases "c \<in> set cs")
    case True
    from Cons.IH [OF True r] show ?thesis by simp
  next
    case False
    with Cons.prems(1) have ac: "a = c" by simp
    show ?thesis
    proof (cases "\<exists>c'\<in>set cs. name c' = name c")
      case True
      then obtain c' where c': "c' \<in> set cs" "name c' = name c" by blast
      with r have n: "new c' = new c" by blast
      have "\<forall>d\<in>set cs. name d = name c' \<longrightarrow> new d = new c'"
        using r c'(2) n by simp
      then have "merge_cells name cs new (old(name a := new a)) (name c') = new c'"
        by (rule Cons.IH [OF c'(1)])
      with c'(2) n show ?thesis
        by (simp only: merge_cells.simps)
    next
      case False
      then have "\<forall>c'\<in>set cs. name c' \<noteq> name c" by blast
      then have "merge_cells name cs new (old(name a := new a)) (name c)
          = (old(name a := new a)) (name c)"
        by (rule merge_cells_other)
      with ac show ?thesis by simp
    qed
  qed
qed

lemma merged_row:
  assumes "c \<in> set cols" "c \<in> set (columns df)"
    and "\<forall>c'\<in>set cols. c' @ ''_new'' \<notin> set (columns df) \<and> c' @ ''_new'' \<notin> set cols"
  shows "merge_cells (right_name df) cols new old c = old c"
    and "merge_cells (right_name df) cols new old (c @ ''_new'') = new c"
proof -
  have "\<forall>c'\<in>set cols. right_name df c' \<noteq> c"
  proof
    fix c' assume "c' \<in> set cols"
    with assms(3) have "c' @ ''_new'' \<notin> set (columns df)" by blast
    with assms(2) show "right_name df c' \<noteq> c"
      by (auto simp: right_name_def)
  qed
  then show "merge_cells (right_name df) cols new old c = old c"
    by (rule merge_cells_other)
  have n: "right_name df c = c @ ''_new''"
    using assms(2) by (simp add: right_name_def)
  have "\<forall>c'\<in>set cols. right_name df c' = right_name df c \<longrightarrow> new c' = new c"
  proof (intro ballI impI)
    fix c' assume c': "c' \<in> set cols" and e: "right_name df c' = right_name df c"
    from assms(1,3) have "c @ ''_new'' \<notin> set cols" by blast
    with c' e n have "c' = c"
      by (cases "c' \<in> set (columns df)") (auto simp: right_name_def)
    then show "new c' = new c" by simp
  qed
  with assms(1) have "merge_cells (right_name df) cols new old (right_name df c) = new c"
    by (rule merge_cells_hit)
  then show "merge_cells (right_name df) cols new old (c @ ''_new'') = new c"
    by (simp only: n)
qed

lemma update_column_keeps:
  assumes "x \<noteq> col"
  shows "map (\<lambda>(k, m). (k, h (m x))) (frame_rows (update_column col df))
       = map (\<lambda>(k, m). (k, h (m x))) (frame_rows df)"
  using assms by (auto simp: update_column_def case_prod_unfold)

lemma update_column_keeps2:
  assumes "x \<noteq> col" "y \<noteq> col"
  shows "map (\<lambda>(k, m). (k, h (m x) (m y))) (frame_rows (update_column col df))
       = map (\<lambda>(k, m). (k, h (m x) (m y))) (frame_rows df)"
  using assms by (auto simp: update_column_def case_prod_unfold)

lemma loop_keeps:
  "x \<notin> set cols \<Longrightarrow>
   map (\<lambda>(k, m). (k, h (m x))) (frame_rows (fold update_column cols df))
     = map (\<lambda>(k, m). (k, h (m x))) (frame_rows df)"
proof (induction cols arbitrary: df)
  case Nil
  show ?case by simp
next
  case (Cons a cs)
  then have "x \<notin> set cs" "x \<noteq> a" by auto
  with Cons.IH [of "update_column a df"] update_column_keeps [of x a h df]
  show ?case by simp
qed

lemma update_column_columns:
  assumes "x \<in> set (columns df)" "x \<noteq> col @ ''_new''"
  shows "x \<in> set (columns (update_column col df))"
  using assms by (auto simp: update_column_def)

lemma loop_coalesces:
  assumes "distinct cols" "c \<in> set cols"
    and "c \<in> set (columns df)" "c @ ''_new'' \<in> set (columns df)"
    and "\<forall>c'\<in>set cols. c' @ ''_new'' \<noteq> c \<and> c' \<noteq> c @ ''_new''"
  shows "map (\<lambda>(k, m). (k, m c)) (frame_rows (fold update_column cols df))
       = map (\<lambda>(k, m). (k, combine_first (m (c @ ''_new'')) (m c))) (frame_rows df)"
  using assms
proof (induction cols arbitrary: df)
  case Nil
  then show ?case by simp
next
  case (Cons a cs)
  show ?case
  proof (cases "a = c")
    case True
    from Cons.prems(1) True have "c \<notin> set cs" by simp
    then have "map (\<lambda>(k, m). (k, m c)) (frame_rows (fold update_column cs (update_column c df)))
        = map (\<lambda>(k, m). (k, m c)) (frame_rows (update_column c df))"
      using loop_keeps [of c cs "\<lambda>v. v" "update_column c df"] by simp
    also have "\<dots> = map (\<lambda>(k, m). (k, combine_first (m (c @ ''_new'')) (m c))) (frame_rows df)"
      using Cons.prems(3,4) by (simp add: update_column_def case_prod_unfold)
    finally show ?thesis
      using True by simp
  next
    case False
    from Cons.prems(5) have n: "a @ ''_new'' \<noteq> c" "a \<noteq> c @ ''_new''"
      by simp_all
    from False have m: "a @ ''_new'' \<noteq> c @ ''_new''"
      by simp
    have 1: "distinct cs" "c \<in> set cs"
      using Cons.prems(1,2) False by auto
    have 2: "c \<in> set (columns (update_column a df))"
      using Cons.prems(3) n(1) by (intro update_column_columns) auto
    have 3: "c @ ''_new'' \<in> set (columns (update_column a df))"
      using Cons.prems(4) m by (intro update_column_columns) auto
    have 4: "\<forall>c'\<in>set cs. c' @ ''_new'' \<noteq> c \<and> c' \<noteq> c @ ''_new''"
      using Cons.prems(5) by simp
    have "map (\<lambda>(k, m). (k, m c)) (frame_rows (fold update_column cs (update_column a df)))
        = map (\<lambda>(k, m). (k, combine_first (m (c @ ''_new'')) (m c)))
            (frame_rows (update_column a df))"
      by (rule Cons.IH [OF 1 2 3 4])
    also have "\<dots> = map (\<lambda>(k, m). (k, combine_first (m (c @ ''_new'')) (m c))) (frame_rows df)"
      using update_column_keeps2 [of "c @ ''_new''" a c "combine_first" df] n(2) False
      by simp
    finally show ?thesis by simp
  qed
qed

lemma filter_key_distinct:
  "distinct (map fst feats) \<Longrightarrow>
   filter (\<lambda>f. fst f = k) feats = (case map_of feats k of None \<Rightarrow> [] | Some n \<Rightarrow> [(k, n)])"
proof (induction feats)
  case Nil
  show ?case by simp
next
  case (Cons f fs)
  obtain k' n' where f: "f = (k', n')" by (cases f)
  from Cons.prems have d: "distinct (map fst fs)" and k': "k' \<notin> fst ` set fs"
    by (simp_all add: f)
  show ?case
  proof (cases "k' = k")
    case True
    with k' have "filter (\<lambda>f. fst f = k) fs = []"
      by (auto simp: filter_empty_conv)
    with True show ?thesis by (simp add: f)
  next
    case False
    with Cons.IH [OF d] show ?thesis by (simp add: f)
  qed
qed

lemma matched_values_distinct:
  "distinct (map fst feats) \<Longrightarrow>
   matched_values k feats = [case map_of feats k of None \<Rightarrow> (\<lambda>c. NaN) | Some n \<Rightarrow> n]"
  by (simp add: matched_values_def filter_key_distinct split: option.splits)

text \<open>With one new row for a title at most, the rows stay as they are in number.\<close>

lemma merge_and_update_cells:
  assumes "distinct cols" "c \<in> set cols" "c \<in> set (columns df)"
    and h: "\<forall>c'\<in>set cols. c' @ ''_new'' \<notin> set (columns df) \<and> c' @ ''_new'' \<notin> set cols"
    and "distinct (map fst feats)"
  shows "map (\<lambda>(k, m). (k, m c)) (frame_rows (merge_and_update cols df feats))
       = map (\<lambda>(k, m). (k, case map_of feats k of
                                None \<Rightarrow> m c
                              | Some n \<Rightarrow> if n c = NaN then m c else n c))
             (frame_rows df)"
proof -
  let ?f = "left_merge cols df feats"
  have 1: "c \<in> set (columns ?f)"
    using assms(3) by (simp add: left_merge_def)
  have "right_name df c \<in> right_name df ` set cols"
    using assms(2) by (rule imageI)
  then have 2: "c @ ''_new'' \<in> set (columns ?f)"
    using assms(3) by (simp add: left_merge_def right_name_def)
  have 3: "\<forall>c'\<in>set cols. c' @ ''_new'' \<noteq> c \<and> c' \<noteq> c @ ''_new''"
    using h assms(2,3) by metis
  have "map (\<lambda>(k, m). (k, m c)) (frame_rows (merge_and_update cols df feats))
      = map (\<lambda>(k, m). (k, combine_first (m (c @ ''_new'')) (m c))) (frame_rows ?f)"
    unfolding merge_and_update_def by (rule loop_coalesces [OF assms(1,2) 1 2 3])
  also have "\<dots> = map (\<lambda>(k, m). (k, case map_of feats k of
                                        None \<Rightarrow> m c
                                      | Some n \<Rightarrow> if n c = NaN then m c else n c))
                         (frame_rows df)"
    by (simp add: left_merge_def matched_values_distinct [OF assms(5)]
        merged_row [OF assms(2,3) h] combine_first_def notna_def case_prod_unfold
        split: option.splits)
  finally show ?thesis .
qed

lemma merge_and_update_rows:
  assumes "distinct cols" "c \<in> set cols" "c \<in> set (columns df)"
    and h: "\<forall>c'\<in>set cols. c' @ ''_new'' \<notin> set (columns df) \<and> c' @ ''_new'' \<notin> set cols"
  shows "map (\<lambda>(k, m). (k, m c)) (frame_rows (merge_and_update cols df feats))
       = concat (map (\<lambda>(k, m). case filter (\<lambda>f. fst f = k) feats of
                                   [] \<Rightarrow> [(k, m c)]
                                 | fs \<Rightarrow> map (\<lambda>f. (k, if snd f c = NaN then m c else snd f c)) fs)
                     (frame_rows df))"
proof -
  let ?f = "left_merge cols df feats"
  have 1: "c \<in> set (columns ?f)"
    using assms(3) by (simp add: left_merge_def)
  have "right_name df c \<in> right_name df ` set cols"
    using assms(2) by (rule imageI)
  then have 2: "c @ ''_new'' \<in> set (columns ?f)"
    using assms(3) by (simp add: left_merge_def right_name_def)
  have 3: "\<forall>c'\<in>set cols. c' @ ''_new'' \<noteq> c \<and> c' \<noteq> c @ ''_new''"
    using h assms(2,3) by metis
  have "map (\<lambda>(k, m). (k, m c)) (frame_rows (merge_and_update cols df feats))
      = map (\<lambda>(k, m). (k, combine_first (m (c @ ''_new'')) (m c))) (frame_rows ?f)"
    unfolding merge_and_update_def by (rule loop_coalesces [OF assms(1,2) 1 2 3])
  also have "\<dots> = concat (map (\<lambda>(k, m). map (\<lambda>n. (k, combine_first (n c) (m c)))
                                              (matched_values k feats))
                                 (frame_rows df))"
    by (simp add: left_merge_def map_concat comp_def case_prod_unfold merged_row [OF assms(2,3) h])
  also have "\<dots> = concat (map (\<lambda>(k, m). case filter (\<lambda>f. fst f = k) feats of
                                   [] \<Rightarrow> [(k, m c)]
                                 | fs \<Rightarrow> map (\<lambda>f. (k, if snd f c = NaN then m c else snd f c)) fs)
                     (frame_rows df))"
    by (intro arg_cong [where f = concat] map_cong refl)
      (auto simp: matched_values_def combine_first_def notna_def split: list.splits)
  finally show ?thesis .
qed

lemma column_lists:
  "distinct all_years_columns" "distinct individual_columns"
  "\<forall>c'\<in>set all_years_columns. c' @ ''_new'' \<notin> set all_years_columns"
  "\<forall>c'\<in>set individual_columns. c' @ ''_new'' \<notin> set individual_columns"
  by (simp_all add: all_years_columns_def individual_columns_def)

text \<open>
  C4. The merge is a coalesce, per column and title. Let no column of the main dataset
  be named \<open>col_new\<close> for a merged column (the loop would take it for new values). Then
  the updated dataset has, for every row of the main dataset and in the order of these
  rows, one row for every row of the new data with the same title, and the row itself
  when there is none. In a merged column that the main dataset has, the cell of such a
  row is the new value if it is not missing, and the old value otherwise: an existing
  value is kept against a missing new one (or when there is no new row), a new value is
  adopted for a missing old one, and the new value wins when both are there. This holds
  of the update in collect_all_years.py and of \<open>update_main_dataset\<close> in
  scrape_individual_movies.py, which in addition raises \<open>KeyError\<close> when the main
  dataset has no column \<open>first_week_gross\<close> and \<open>FileNotFoundError\<close> when there is no
  main dataset.
\<close>

theorem merge_is_coalesce:
  assumes "\<forall>c'\<in>set (all_years_columns @ individual_columns). c' @ ''_new'' \<notin> set (columns df)"
    and "c \<in> set (columns df)"
  shows
    "(c \<in> set all_years_columns \<longrightarrow>
        map (\<lambda>(k, m). (k, m c)) (frame_rows (collect_all_years_update df feats))
        = concat (map (\<lambda>(k, m). case filter (\<lambda>f. fst f = k) feats of
                                    [] \<Rightarrow> [(k, m c)]
                                  | fs \<Rightarrow> map (\<lambda>f. (k, if snd f c = NaN then m c else snd f c)) fs)
                      (frame_rows df)))
     \<and> (c \<in> set individual_columns \<and> ''first_week_gross'' \<in> set (columns df) \<longrightarrow>
        map_sum id (\<lambda>r. map (\<lambda>(k, m). (k, m c)) (frame_rows r))
          (update_main_dataset (Some df) feats)
        = Inr (concat (map (\<lambda>(k, m). case filter (\<lambda>f. fst f = k) feats of
                                    [] \<Rightarrow> [(k, m c)]
                                  | fs \<Rightarrow> map (\<lambda>f. (k, if snd f c = NaN then m c else snd f c)) fs)
                           (frame_rows df))))
     \<and> (''first_week_gross'' \<notin> set (columns df) \<longrightarrow>
        update_main_dataset (Some df) feats = Inl KeyError)
     \<and> update_main_dataset None feats = Inl FileNotFoundError"
proof -
  from assms(1) column_lists(3)
  have a: "\<forall>c'\<in>set all_years_columns.
      c' @ ''_new'' \<notin> set (columns df) \<and> c' @ ''_new'' \<notin> set all_years_columns"
    by simp
  from assms(1) column_lists(4)
  have i: "\<forall>c'\<in>set individual_columns.
      c' @ ''_new'' \<notin> set (columns df) \<and> c' @ ''_new'' \<notin> set individual_columns"
    by simp
  have 1: "c \<in> set all_years_columns \<longrightarrow>
      map (\<lambda>(k, m). (k, m c)) (frame_rows (collect_all_years_update df feats))
      = concat (map (\<lambda>(k, m). case filter (\<lambda>f. fst f = k) feats of
                                  [] \<Rightarrow> [(k, m c)]
                                | fs \<Rightarrow> map (\<lambda>f. (k, if snd f c = NaN then m c else snd f c)) fs)
                    (frame_rows df))"
    unfolding collect_all_years_update_def
    using merge_and_update_rows [OF column_lists(1) _ assms(2) a] by blast
  have 2: "c \<in> set individual_columns \<and> ''first_week_gross'' \<in> set (columns df) \<longrightarrow>
      map_sum id (\<lambda>r. map (\<lambda>(k, m). (k, m c)) (frame_rows r))
        (update_main_dataset (Some df) feats)
      = Inr (concat (map (\<lambda>(k, m). case filter (\<lambda>f. fst f = k) feats of
                                  [] \<Rightarrow> [(k, m c)]
                                | fs \<Rightarrow> map (\<lambda>f. (k, if snd f c = NaN then m c else snd f c)) fs)
                         (frame_rows df)))"
    using merge_and_update_rows [OF column_lists(2) _ assms(2) i]
    by (simp add: update_main_dataset_def)
  have 3: "''first_week_gross'' \<notin> set (columns df) \<longrightarrow>
      update_main_dataset (Some df) feats = Inl KeyError"
    by (simp add: update_main_dataset_def)
  have 4: "update_main_dataset None feats = Inl FileNotFoundError"
    by (simp add: update_main_dataset_def)
  from 1 2 3 4 show ?thesis
    by (intro conjI)
qed

text \<open>
  The sample dataset: 100 is kept for A, 250 is adopted for B, 250 wins over 100 for C,
  and D, which has no new row, keeps its 7. A main dataset without the column
  \<open>first_week_gross\<close> makes \<open>update_main_dataset\<close> raise.
\<close>

theorem merge_is_coalesce_witness:
  "map (\<lambda>(k, m). (k, m ''first_week_gross''))
       (frame_rows (collect_all_years_update sample_frame sample_new))
     = [(Some (cps ''A''), Fin 100), (Some (cps ''B''), Fin 250),
        (Some (cps ''C''), Fin 250), (Some (cps ''D''), Fin 7)]
   \<and> map_sum id (\<lambda>r. map (\<lambda>(k, m). (k, m ''first_week_gross'')) (frame_rows r))
        (update_main_dataset (Some sample_frame) sample_new)
     = Inr [(Some (cps ''A''), Fin 100), (Some (cps ''B''), Fin 250),
            (Some (cps ''C''), Fin 250), (Some (cps ''D''), Fin 7)]
   \<and> update_main_dataset (Some (sample_frame\<lparr>columns := [''budget'']\<rparr>)) sample_new
     = Inl KeyError"
proof -
  have h: "\<forall>c'\<in>set (all_years_columns @ individual_columns).
      c' @ ''_new'' \<notin> set (columns sample_frame)"
    by (simp add: all_years_columns_def individual_columns_def sample_frame_def)
  have h': "\<forall>c'\<in>set (all_years_columns @ individual_columns).
      c' @ ''_new'' \<notin> set (columns (sample_frame\<lparr>columns := [''budget'']\<rparr>))"
    by (simp add: all_years_columns_def individual_columns_def)
  have c: "''first_week_gross'' \<in> set (columns sample_frame)"
    "''first_week_gross'' \<in> set all_years_columns"
    "''first_week_gross'' \<in> set individual_columns"
    by (simp_all add: sample_frame_def all_years_columns_def individual_columns_def)
  have e: "concat (map (\<lambda>(k, m). case filter (\<lambda>f. fst f = k) sample_new of
                  [] \<Rightarrow> [(k, m ''first_week_gross'')]
                | fs \<Rightarrow> map (\<lambda>f. (k, if snd f ''first_week_gross'' = NaN
                                      then m ''first_week_gross''
                                      else snd f ''first_week_gross'')) fs)
               (frame_rows sample_frame))
      = [(Some (cps ''A''), Fin 100), (Some (cps ''B''), Fin 250),
         (Some (cps ''C''), Fin 250), (Some (cps ''D''), Fin 7)]"
    by (simp add: sample_frame_def sample_new_def sample_cells_of_def cps_def)
  have k: "''budget'' \<in> set (columns (sample_frame\<lparr>columns := [''budget'']\<rparr>))"
    "''first_week_gross'' \<notin> set (columns (sample_frame\<lparr>columns := [''budget'']\<rparr>))"
    by simp_all
  from merge_is_coalesce [OF h c(1), of sample_new]
    merge_is_coalesce [OF h' k(1), of sample_new] c k(2)
  show ?thesis
    unfolding e by blast
qed

text \<open>The same update computed from the definitions, with the columns that are left.\<close>

lemma update_main_example:
  "map_sum id (\<lambda>r. (columns r, map (\<lambda>(k, m). (k, map m [''first_week_gross'', ''opening_gross''])) (frame_rows r)))
     (update_main_dataset (Some sample_frame) sample_new)
   = Inr ([''first_week_gross'', ''budget'', ''opening_gross'', ''opening_theaters'',
           ''first_week_days_tracked'', ''peak_theaters_week1''],
          [(Some (cps ''A''), [Fin 100, NaN]), (Some (cps ''B''), [Fin 250, Fin 250]),
           (Some (cps ''C''), [Fin 250, Fin 250]), (Some (cps ''D''), [Fin 7, NaN])])"
  by (simp add: update_main_dataset_def merge_and_update_def left_merge_def matched_values_def
      update_column_def right_name_def individual_columns_def combine_first_def notna_def
      sample_frame_def sample_new_def sample_cells_of_def cps_def)

subsection \<open>A missing URL that is not \<open>None\<close>\<close>

text \<open>
  C10. When \<open>aggregate_daily_features\<close> is called with a \<open>movie_url\<close> that is the float
  \<open>nan\<close> (a missing \<open>bom_url\<close> cell, not \<open>None\<close>), the URL branch is skipped, the
  fallback condition reads \<open>movie_data\<close> before it was assigned, and the call raises
  \<open>UnboundLocalError\<close>, whatever the daily data and the title are.
\<close>

theorem nan_url_raises_unbound_local:
  "aggregate_daily_features daily_data movie_title PyNaN = Inl UnboundLocalError"
  by (simp add: aggregate_daily_features_def select_movie_data_def url_branch_def)

subsection \<open>Reading numbers\<close>

lemma strip_id:
  assumes "list_all (\<lambda>c. \<not> P c) s"
  shows "rev (dropWhile P (rev (dropWhile P s))) = s"
proof -
  have a: "dropWhile P t = t" if "list_all (\<lambda>c. \<not> P c) t" for t
    using that by (cases t) simp_all
  from assms have "list_all (\<lambda>c. \<not> P c) (rev s)"
    by (simp add: list_all_iff)
  with assms show ?thesis
    by (simp add: a)
qed

lemma digit_facts:
  assumes "is_digit c"
  shows "c < 127" "c \<noteq> 95" "c \<noteq> 45" "c \<noteq> 43" "c \<noteq> 36" "c \<noteq> 44"
    "\<not> ascii_space c" "\<not> unicode_space c"
  using assms by (simp_all add: is_digit_def ascii_space_def unicode_space_def)

lemma transform_digits:
  "list_all is_digit ds \<Longrightarrow> transform_decimal_and_space ds = ds"
  by (induction ds) (simp_all add: digit_facts)

lemma underscores_digits:
  "list_all is_digit ds \<Longrightarrow> p \<noteq> 95 \<Longrightarrow> underscores_ok p ds"
  by (induction ds arbitrary: p) (simp_all add: digit_facts)

lemma remove_digits:
  "list_all is_digit ds \<Longrightarrow> str_remove 95 ds = ds"
  by (induction ds) (simp_all add: str_remove_def digit_facts)

lemma ascii_strip_digits:
  "list_all is_digit ds \<Longrightarrow> ascii_strip ds = ds"
  unfolding ascii_strip_def
  by (rule strip_id) (simp add: list_all_iff digit_facts)

lemma parse_decimal_digits:
  assumes "ds \<noteq> []" "list_all is_digit ds"
  shows "parse_decimal ds = Some (of_int (digits_val ds))"
proof -
  from assms obtain c cs where ds: "ds = c # cs" and c: "is_digit c"
    by (cases ds) simp_all
  have s: "split_sign ds = (False, ds)"
    using c by (simp add: ds split_sign_def digit_facts)
  have t: "takeWhile is_digit ds = ds" "dropWhile is_digit ds = []"
    using assms(2) by (simp_all add: list_all_iff)
  show ?thesis
    using assms(1) by (simp add: parse_decimal_def s t parse_exponent_def pow10_def)
qed

lemma pow2_power_int: "pow2 k = 2 powi k"
  by (simp add: pow2_def power_int_def inverse_eq_divide power_one_over)

lemma pow2_pos: "0 < pow2 k"
  by (simp add: pow2_def)

lemma pow2_mono: "k \<le> l \<Longrightarrow> pow2 k \<le> pow2 l"
  by (simp add: pow2_power_int power_int_increasing)

lemma pow2_add: "pow2 (k + l) = pow2 k * pow2 l"
  by (simp add: pow2_power_int power_int_add)

lemma pow2_nat: "pow2 (int n) = 2 ^ n"
  by (simp add: pow2_def)

lemma bitlen_pow2_bounds:
  assumes "0 < n"
  shows "pow2 (bitlen n - 1) \<le> of_int n" "of_int n < pow2 (bitlen n)"
proof -
  have b: "1 \<le> bitlen n"
    using assms bitlen_eq_zero_iff [of n] bitlen_nonneg [of n] by linarith
  from bitlen_bounds [OF assms]
  have "(of_int (2 ^ nat (bitlen n - 1)) :: rat) \<le> of_int n"
    and "(of_int n :: rat) < of_int (2 ^ nat (bitlen n))"
    by (simp_all only: of_int_le_iff of_int_less_iff)
  with b show "pow2 (bitlen n - 1) \<le> of_int n" "of_int n < pow2 (bitlen n)"
    by (simp_all add: pow2_def)
qed

lemma floor_log2_bounds:
  assumes "0 < x"
  shows "pow2 (floor_log2 x) \<le> x \<and> x < pow2 (floor_log2 x + 1)"
proof -
  obtain n d where q: "quotient_of x = (n, d)"
    by (cases "quotient_of x")
  from q have d: "0 < d" by (rule quotient_of_denom_pos)
  from q have x: "x = of_int n / of_int d" by (rule quotient_of_div)
  from assms d x have n: "0 < n"
    by (simp add: zero_less_divide_iff)
  from d x have xd: "x * of_int d = of_int n" by simp
  define k where "k = bitlen n - bitlen d"
  have "x * of_int d < pow2 (bitlen n)"
    using bitlen_pow2_bounds(2) [OF n] by (simp add: xd)
  also have "pow2 (bitlen n) = pow2 (k + 1) * pow2 (bitlen d - 1)"
    by (simp add: k_def pow2_add [symmetric])
  also have "\<dots> \<le> pow2 (k + 1) * of_int d"
    using bitlen_pow2_bounds(1) [OF d] pow2_pos [of "k + 1"] by simp
  finally have up: "x < pow2 (k + 1)"
    using d by simp
  have "pow2 (k - 1) * of_int d < pow2 (k - 1) * pow2 (bitlen d)"
    using bitlen_pow2_bounds(2) [OF d] pow2_pos [of "k - 1"] by simp
  also have "\<dots> = pow2 (bitlen n - 1)"
    by (simp add: k_def pow2_add [symmetric])
  also have "\<dots> \<le> x * of_int d"
    using bitlen_pow2_bounds(1) [OF n] by (simp add: xd)
  finally have low: "pow2 (k - 1) < x"
    using d by simp
  have f: "floor_log2 x = (if pow2 k \<le> x then k else k - 1)"
    by (simp add: floor_log2_def q k_def)
  show ?thesis
  proof (cases "pow2 k \<le> x")
    case True
    with up f show ?thesis by simp
  next
    case False
    with low f show ?thesis by simp
  qed
qed

lemma floor_log2_eqI:
  assumes "pow2 k \<le> x" "x < pow2 (k + 1)"
  shows "floor_log2 x = k"
proof -
  from assms(1) pow2_pos [of k] have "0 < x" by simp
  then have b: "pow2 (floor_log2 x) \<le> x" "x < pow2 (floor_log2 x + 1)"
    using floor_log2_bounds by simp_all
  have "\<not> k < floor_log2 x"
  proof
    assume "k < floor_log2 x"
    then have "pow2 (k + 1) \<le> pow2 (floor_log2 x)" by (intro pow2_mono) simp
    with b(1) assms(2) show False by simp
  qed
  moreover have "\<not> floor_log2 x < k"
  proof
    assume "floor_log2 x < k"
    then have "pow2 (floor_log2 x + 1) \<le> pow2 k" by (intro pow2_mono) simp
    with b(2) assms(1) show False by simp
  qed
  ultimately show ?thesis by simp
qed

lemma round_half_even_int: "round_half_even (of_int z) = z"
  by (simp add: round_half_even_def)

lemma round_double_pos:
  assumes "pow2 k \<le> x" "x < pow2 (k + 1)" "- 1022 \<le> k"
  shows "round_double x =
    (let m = round_half_even (x / pow2 (k - 52)); y = of_int m * pow2 (k - 52)
     in if pow2 1024 \<le> y then PInf else Fin y)"
proof -
  from assms(1) pow2_pos [of k] have x: "0 < x" by simp
  then have a: "\<bar>x\<bar> = x" "sgn x = 1" "x \<noteq> 0" by simp_all
  have f: "floor_log2 x = k"
    using assms(1,2) by (rule floor_log2_eqI)
  from assms(3) have e: "max (k - 52) (- 1074) = k - 52" by simp
  show ?thesis
    unfolding round_double_def a f e using x by (simp add: Let_def)
qed

lemma round_double_exact:
  assumes "pow2 k \<le> x" "x < pow2 (k + 1)" "- 1022 \<le> k" "k < 1024"
    and "x / pow2 (k - 52) = of_int m"
  shows "round_double x = Fin x"
proof -
  have p: "pow2 (k - 52) \<noteq> 0"
    using pow2_pos [of "k - 52"] by simp
  from assms(5) p have y: "of_int m * pow2 (k - 52) = x"
    by (simp add: field_simps)
  from assms(4) have "pow2 (k + 1) \<le> pow2 1024" by (intro pow2_mono) simp
  with assms(2) have "\<not> pow2 1024 \<le> x" by simp
  then show ?thesis
    unfolding round_double_pos [OF assms(1-3)] assms(5) round_half_even_int Let_def y
    by simp
qed

lemma round_double_int:
  assumes "0 \<le> n" "n \<le> 2 ^ 53"
  shows "round_double (of_int n) = Fin (of_int n)"
proof -
  consider "n = 0" | "n = 2 ^ 53" | "0 < n" "n < 2 ^ 53"
    using assms by linarith
  then show ?thesis
  proof cases
    case 1
    then show ?thesis by (simp add: round_double_def)
  next
    case 2
    have "round_double (2 ^ 53) = Fin (2 ^ 53)"
      by (rule round_double_exact [where k = 53 and m = "2 ^ 52"]) (simp_all add: pow2_def)
    with 2 show ?thesis by simp
  next
    case 3
    define k where "k = bitlen n - 1"
    have b: "pow2 k \<le> of_int n" "of_int n < pow2 (k + 1)"
      using bitlen_pow2_bounds [OF 3(1)] by (simp_all add: k_def)
    have k0: "0 \<le> k"
      using 3(1) bitlen_eq_zero_iff [of n] bitlen_nonneg [of n] by (simp add: k_def)
    from 3(2) have "bitlen n \<le> 53"
      by (simp add: bitlen_le_iff_power)
    then have k1: "k \<le> 52" by (simp add: k_def)
    have q: "of_int n / pow2 (k - 52) = of_int (n * 2 ^ nat (52 - k))"
      using k1 by (simp add: pow2_def)
    from k0 k1 have r: "- 1022 \<le> k" "k < 1024" by simp_all
    show ?thesis
      by (rule round_double_exact [OF b r q])
  qed
qed

lemma round_double_above:
  "round_double 9007199254740993 = Fin 9007199254740992"
proof -
  have fl: "\<lfloor>9007199254740993 / 2 :: rat\<rfloor> = 4503599627370496"
    by (rule floor_unique) simp_all
  have m: "round_half_even (9007199254740993 / 2) = 4503599627370496"
    by (simp add: round_half_even_def fl)
  have "round_double 9007199254740993 =
    (let m = round_half_even (9007199254740993 / pow2 (53 - 52)); y = of_int m * pow2 (53 - 52)
     in if pow2 1024 \<le> y then PInf else Fin y)"
    by (rule round_double_pos) (simp_all add: pow2_def)
  also have "pow2 (53 - 52) = 2"
    by (simp add: pow2_def)
  finally show ?thesis
    by (simp add: m pow2_def)
qed

lemma digits_val_snoc: "digits_val (ds @ [c]) = 10 * digits_val ds + int (c - 48)"
  by (simp add: digits_val_def)

lemma digits_val_nonneg: "0 \<le> digits_val ds"
  by (induction ds rule: rev_induct) (simp_all add: digits_val_snoc, simp add: digits_val_def)

lemma digits_of_digits: "list_all is_digit (digits_of n)"
proof (induction n rule: digits_of.induct)
  case (1 n)
  show ?case
  proof (cases "n < 10")
    case True
    then show ?thesis by (simp add: digits_of.simps [of n] is_digit_def)
  next
    case False
    have "n mod 10 < 10" by simp
    then have "is_digit (48 + n mod 10)" unfolding is_digit_def by linarith
    with False 1 show ?thesis by (simp add: digits_of.simps [of n])
  qed
qed

lemma digits_of_nonempty: "digits_of n \<noteq> []"
  by (simp add: digits_of.simps [of n])

lemma digits_val_digits_of: "digits_val (digits_of n) = int n"
proof (induction n rule: digits_of.induct)
  case (1 n)
  show ?case
  proof (cases "n < 10")
    case True
    then show ?thesis by (simp add: digits_of.simps [of n] digits_val_def)
  next
    case False
    with 1 have "digits_val (digits_of (n div 10)) = int (n div 10)" by simp
    with False show ?thesis
      by (simp add: digits_of.simps [of n] digits_val_snoc zdiv_int zmod_int)
  qed
qed

lemma group3_filter: "list_all is_digit ds \<Longrightarrow> filter is_digit (group3 ds) = ds"
proof (induction ds rule: group3.induct)
  case (1 ds)
  show ?case
  proof (cases "length ds \<le> 3")
    case True
    with 1(2) show ?thesis by (simp add: group3.simps [of ds] list_all_iff)
  next
    case False
    from 1(2) have a: "list_all is_digit (take (length ds - 3) ds)"
      by (auto simp: list_all_iff dest: in_set_takeD)
    from 1(2) have "\<forall>x\<in>set (drop (length ds - 3) ds). is_digit x"
      by (auto simp: list_all_iff dest: in_set_dropD)
    then have b: "filter is_digit (drop (length ds - 3) ds) = drop (length ds - 3) ds"
      by (simp add: filter_id_conv)
    have c: "\<not> is_digit 44"
      by (simp add: is_digit_def)
    from 1(1) [OF False a] b c False show ?thesis
      by (simp add: group3.simps [of ds])
  qed
qed

lemma group3_set: "set (group3 ds) \<subseteq> insert 44 (set ds)"
proof (induction ds rule: group3.induct)
  case (1 ds)
  show ?case
  proof (cases "length ds \<le> 3")
    case True
    then show ?thesis by (auto simp: group3.simps [of ds])
  next
    case False
    with 1 have "set (group3 (take (length ds - 3) ds)) \<subseteq> insert 44 (set (take (length ds - 3) ds))"
      by simp
    with False show ?thesis
      by (auto simp: group3.simps [of ds] dest: in_set_takeD in_set_dropD)
  qed
qed

lemma filter_dropWhile:
  "(\<And>c. Q c \<Longrightarrow> \<not> P c) \<Longrightarrow> filter P (dropWhile Q xs) = filter P xs"
  by (induction xs) simp_all

lemma filter_digits_strip: "filter is_digit (py_strip text) = filter is_digit text"
proof -
  have q: "unicode_space c \<Longrightarrow> \<not> is_digit c" for c
    using digit_facts(8) by blast
  have "filter is_digit (py_strip text)
      = rev (filter is_digit (dropWhile unicode_space (rev (dropWhile unicode_space text))))"
    by (simp only: py_strip_def rev_filter)
  also have "\<dots> = rev (filter is_digit (rev (dropWhile unicode_space text)))"
    by (simp only: filter_dropWhile [OF q])
  also have "\<dots> = filter is_digit (dropWhile unicode_space text)"
    by (simp only: rev_filter [symmetric] rev_rev_ident)
  also have "\<dots> = filter is_digit text"
    by (simp only: filter_dropWhile [OF q])
  finally show ?thesis .
qed

lemma money_text_digits:
  "set t \<subseteq> {36, 44} \<union> Collect is_digit \<Longrightarrow> str_remove 44 (str_remove 36 t) = filter is_digit t"
  by (induction t) (auto simp: str_remove_def digit_facts)

lemma py_float_digits:
  assumes "ds \<noteq> []" "list_all is_digit ds"
  shows "py_float ds = Inr (round_double (of_int (digits_val ds)))"
  using assms
  by (simp add: py_float_def transform_digits underscores_digits remove_digits
      ascii_strip_digits parse_decimal_digits)

lemma parse_money_digits:
  assumes "set (py_strip text) \<subseteq> {36, 44} \<union> Collect is_digit" "filter is_digit text \<noteq> []"
  shows "parse_money text = Some (round_double (of_int (digits_val (filter is_digit text))))"
    and "bom_parse_money text = Some (round_double (of_int (digits_val (filter is_digit text))))"
proof -
  let ?ds = "filter is_digit text"
  have t: "money_text text = ?ds"
    using money_text_digits [OF assms(1)] by (simp add: money_text_def filter_digits_strip)
  have d: "list_all is_digit ?ds"
    by (simp add: list_all_iff)
  from assms(2) d have "hd ?ds \<noteq> 45"
    by (cases ?ds) (auto simp: digit_facts)
  with assms(2) have n: "?ds \<noteq> cps ''-''"
    by (auto simp: cps_def)
  from py_float_digits [OF assms(2) d] assms(2) n
  show "parse_money text = Some (round_double (of_int (digits_val ?ds)))"
    and "bom_parse_money text = Some (round_double (of_int (digits_val ?ds)))"
    by (simp_all add: parse_money_def bom_parse_money_def t)
qed

lemma format_money_nat:
  "0 \<le> n \<Longrightarrow> format_money (Fin (of_int n)) = 36 # group3 (digits_of (nat n))"
  by (simp add: format_money_def round_half_even_int)

lemma format_money_parts:
  assumes "0 \<le> n"
  shows "set (py_strip (format_money (Fin (of_int n)))) \<subseteq> {36, 44} \<union> Collect is_digit"
    and "filter is_digit (format_money (Fin (of_int n))) = digits_of (nat n)"
proof -
  let ?s = "36 # group3 (digits_of (nat n))"
  have g: "set (group3 (digits_of (nat n))) \<subseteq> insert 44 (Collect is_digit)"
    using group3_set [of "digits_of (nat n)"] digits_of_digits [of "nat n"]
    by (auto simp: list_all_iff)
  then have s: "set ?s \<subseteq> {36, 44} \<union> Collect is_digit"
    by auto
  have "list_all (\<lambda>c. \<not> unicode_space c) ?s"
    unfolding list_all_iff
  proof
    fix c assume "c \<in> set ?s"
    with s have "c = 36 \<or> c = 44 \<or> is_digit c" by auto
    then show "\<not> unicode_space c"
      by (auto simp: unicode_space_def is_digit_def)
  qed
  then have "py_strip ?s = ?s"
    unfolding py_strip_def by (rule strip_id)
  with s show "set (py_strip (format_money (Fin (of_int n)))) \<subseteq> {36, 44} \<union> Collect is_digit"
    by (simp only: format_money_nat [OF assms])
  show "filter is_digit (format_money (Fin (of_int n))) = digits_of (nat n)"
  proof -
    have "\<not> is_digit 36"
      by (simp add: is_digit_def)
    then show ?thesis
      by (simp add: format_money_nat [OF assms] group3_filter digits_of_digits)
  qed
qed

lemmas num_defs = parse_money_def bom_parse_money_def parse_percent_def bom_parse_percent_def
  money_text_def percent_text_def py_strip_def unicode_space_def str_remove_def cps_def
  py_float_def ascii_strip_def ascii_space_def parse_decimal_def parse_exponent_def
  split_sign_def is_digit_def parse_inf_or_nan_def lower_cp_def to_decimal_def digit_zeros_def

text \<open>
  C1. The money parser returns \<open>None\<close> (so never zero) for the empty string, the dash,
  the em dash (U+2014) and \<open>N/A\<close>, and for every text that is empty or a dash once
  stripped and freed of dollar signs and commas, or that \<open>float\<close> does not accept. The
  percentage parser returns \<open>None\<close> for the dash, \<open>n/a\<close> and the empty string, and for every
  text that is one of these once stripped and freed of percent and plus signs, or that
  \<open>float\<close> does not accept. This holds of the helpers of both scripts.
\<close>

theorem unparseable_is_none:
  "parse_money (cps '''') = None \<and> parse_money (cps ''-'') = None
   \<and> parse_money [8212] = None \<and> parse_money (cps ''N/A'') = None
   \<and> bom_parse_money (cps '''') = None \<and> bom_parse_money (cps ''-'') = None
   \<and> bom_parse_money [8212] = None \<and> bom_parse_money (cps ''N/A'') = None
   \<and> parse_percent (cps ''-'') = None \<and> parse_percent (cps ''n/a'') = None
   \<and> parse_percent (cps '''') = None
   \<and> bom_parse_percent (cps ''-'') = None \<and> bom_parse_percent (cps ''n/a'') = None
   \<and> bom_parse_percent (cps '''') = None
   \<and> (money_text text = [] \<or> money_text text = cps ''-''
        \<or> py_float (money_text text) = Inl ValueError
      \<longrightarrow> parse_money text = None \<and> bom_parse_money text = None)
   \<and> (percent_text text = [] \<or> percent_text text = cps ''-'' \<or> percent_text text = cps ''n/a''
        \<or> py_float (percent_text text) = Inl ValueError
      \<longrightarrow> parse_percent text = None \<and> bom_parse_percent text = None)"
proof -
  have m: "parse_money (cps '''') = None" "parse_money (cps ''-'') = None"
    "parse_money [8212] = None" "parse_money (cps ''N/A'') = None"
    by (simp_all add: num_defs)
  have b: "bom_parse_money (cps '''') = None" "bom_parse_money (cps ''-'') = None"
    "bom_parse_money [8212] = None" "bom_parse_money (cps ''N/A'') = None"
    by (simp_all add: num_defs)
  have p: "parse_percent (cps ''-'') = None" "parse_percent (cps ''n/a'') = None"
    "parse_percent (cps '''') = None"
    by (simp_all add: num_defs)
  have q: "bom_parse_percent (cps ''-'') = None" "bom_parse_percent (cps ''n/a'') = None"
    "bom_parse_percent (cps '''') = None"
    by (simp_all add: num_defs)
  have g: "money_text text = [] \<or> money_text text = cps ''-''
        \<or> py_float (money_text text) = Inl ValueError
      \<longrightarrow> parse_money text = None \<and> bom_parse_money text = None"
    by (auto simp: parse_money_def bom_parse_money_def Let_def)
  have h: "percent_text text = [] \<or> percent_text text = cps ''-'' \<or> percent_text text = cps ''n/a''
        \<or> py_float (percent_text text) = Inl ValueError
      \<longrightarrow> parse_percent text = None \<and> bom_parse_percent text = None"
    by (auto simp: parse_percent_def bom_parse_percent_def Let_def)
  from m b p q g h show ?thesis
    by (intro conjI)
qed

text \<open>A cell reading \<open>TBD\<close>, which \<open>float\<close> rejects.\<close>

theorem unparseable_is_none_witness:
  "py_float (money_text (cps ''TBD'')) = Inl ValueError
   \<and> py_float (percent_text (cps ''TBD'')) = Inl ValueError
   \<and> parse_money (cps ''TBD'') = None \<and> bom_parse_money (cps ''TBD'') = None
   \<and> parse_percent (cps ''TBD'') = None \<and> bom_parse_percent (cps ''TBD'') = None"
proof -
  have a: "py_float (money_text (cps ''TBD'')) = Inl ValueError"
    and b: "py_float (percent_text (cps ''TBD'')) = Inl ValueError"
    by (simp_all add: num_defs)
  with unparseable_is_none [of "cps ''TBD''"] show ?thesis
    by blast
qed

text \<open>
  What \<open>float\<close> accepts is a number for the parser, also when it is not finite: a cell
  reading \<open>nan\<close> or \<open>inf\<close> gives that float, not \<open>None\<close>.
\<close>

lemma parse_money_nan_inf:
  "parse_money (cps ''nan'') = Some NaN \<and> parse_money (cps ''inf'') = Some PInf"
  by (simp add: num_defs)

text \<open>
  C7. A text of digits, commas and dollar signs (with white space around it or not) whose
  digits make a number up to \<open>2 ^ 53\<close> is read as exactly that number, by the helpers of
  both scripts; and the number printed as the scripts print a gross, \<open>f"${x:,.0f}"\<close>, is
  read back as the same number.
\<close>

theorem parse_money_exact:
  assumes "set (py_strip text) \<subseteq> {36, 44} \<union> Collect is_digit"
    and "filter is_digit text \<noteq> []"
    and "digits_val (filter is_digit text) = n"
    and "n \<le> 2 ^ 53"
  shows "parse_money text = Some (Fin (of_int n))
    \<and> bom_parse_money text = Some (Fin (of_int n))
    \<and> parse_money (format_money (Fin (of_int n))) = Some (Fin (of_int n))
    \<and> bom_parse_money (format_money (Fin (of_int n))) = Some (Fin (of_int n))"
proof -
  from assms(3) have n: "0 \<le> n"
    using digits_val_nonneg [of "filter is_digit text"] by simp
  have r: "round_double (of_int n) = Fin (of_int n)"
    using n assms(4) by (rule round_double_int)
  let ?s = "format_money (Fin (of_int n))"
  have f: "filter is_digit ?s = digits_of (nat n)"
    using n by (rule format_money_parts(2))
  then have e: "filter is_digit ?s \<noteq> []"
    by (simp add: digits_of_nonempty)
  from n have v: "digits_val (filter is_digit ?s) = n"
    by (simp add: f digits_val_digits_of)
  show ?thesis
    using parse_money_digits [OF assms(1,2)]
      parse_money_digits [OF format_money_parts(1) [OF n] e]
    by (simp add: assms(3) v r)
qed

text \<open>The string \<open>$1,234,567\<close>, which is also what the number is printed as.\<close>

theorem parse_money_exact_witness:
  "parse_money (cps ''$1,234,567'') = Some (Fin 1234567)
   \<and> bom_parse_money (cps ''$1,234,567'') = Some (Fin 1234567)
   \<and> parse_money (format_money (Fin 1234567)) = Some (Fin 1234567)
   \<and> bom_parse_money (format_money (Fin 1234567)) = Some (Fin 1234567)"
proof -
  have a: "set (py_strip (cps ''$1,234,567'')) \<subseteq> {36, 44} \<union> Collect is_digit"
    by (simp add: py_strip_def unicode_space_def cps_def is_digit_def)
  have b: "filter is_digit (cps ''$1,234,567'') \<noteq> []"
    by (simp add: cps_def is_digit_def)
  have c: "digits_val (filter is_digit (cps ''$1,234,567'')) = 1234567"
    by (simp add: cps_def is_digit_def digits_val_def)
  have d: "(1234567 :: int) \<le> 2 ^ 53"
    by simp
  from parse_money_exact [OF a b c d] show ?thesis
    by simp
qed

text \<open>
  Above \<open>2 ^ 53\<close> a float64 holds every second integer only: the digits
  9007199254740993 are read as 9007199254740992.
\<close>

theorem parse_money_rounds_above_2_53:
  "parse_money (cps ''$9,007,199,254,740,993'') = Some (Fin 9007199254740992)"
proof -
  let ?t = "cps ''$9,007,199,254,740,993''"
  have a: "set (py_strip ?t) \<subseteq> {36, 44} \<union> Collect is_digit"
    by (simp add: py_strip_def unicode_space_def cps_def is_digit_def)
  have b: "filter is_digit ?t \<noteq> []"
    by (simp add: cps_def is_digit_def)
  have c: "digits_val (filter is_digit ?t) = 9007199254740993"
    by (simp add: cps_def is_digit_def digits_val_def)
  from parse_money_digits(1) [OF a b] show ?thesis
    by (simp add: c round_double_above)
qed

lemma format_money_example:
  "format_money (Fin 1234567) = cps ''$1,234,567''"
  by (simp add: format_money_def round_half_even_def digits_of.simps group3.simps cps_def)

subsection \<open>The daily listing and the collectors\<close>

lemma scrape_daily_data_cases:
  "scrape_daily_data get d = Inr None \<or> (\<exists>df. scrape_daily_data get d = Inr (Some df))"
  by (cases "scrape_body get d") (auto simp: scrape_daily_data_def)

lemma bom_scrape_daily_data_eq: "bom_scrape_daily_data get d = scrape_daily_data get d"
  by (auto simp: bom_scrape_daily_data_def scrape_daily_data_def split: sum.splits option.splits)

lemma batch_loop_eq:
  "batch_loop get dates es all_data =
     (es @ concat (map (\<lambda>d. [Fetch d, Sleep]) dates), Inr (all_data @ day_frames get dates))"
proof (induction dates arbitrary: es all_data)
  case Nil
  show ?case by (simp add: day_frames_def)
next
  case (Cons d ds)
  from scrape_daily_data_cases [of get d] show ?case
  proof
    assume "scrape_daily_data get d = Inr None"
    then show ?thesis by (simp add: Cons.IH day_frames_def)
  next
    assume "\<exists>df. scrape_daily_data get d = Inr (Some df)"
    then obtain df where "scrape_daily_data get d = Inr (Some df)" ..
    then show ?thesis by (simp add: Cons.IH day_frames_def)
  qed
qed

lemma collect_year_batch_eq:
  "collect_year_batch get year dates =
     (concat (map (\<lambda>d. [Fetch d, Sleep]) dates)
        @ (if day_frames get dates \<noteq> [] then [ToCsv year (concat (day_frames get dates))] else []),
      Inr (if day_frames get dates \<noteq> [] then Some (concat (day_frames get dates)) else None))"
  by (simp add: collect_year_batch_def batch_loop_eq)

lemma fetched_steps: "fetched (concat (map (\<lambda>d. [Fetch d, Sleep]) dates)) = dates"
  by (induction dates) (simp_all add: fetched_def)

lemma written_steps: "written (concat (map (\<lambda>d. [Fetch d, Sleep]) dates)) = []"
  by (induction dates) (simp_all add: written_def)

lemma fetched_append: "fetched (es @ es') = fetched es @ fetched es'"
  by (simp add: fetched_def)

lemma written_append: "written (es @ es') = written es @ written es'"
  by (simp add: written_def)

lemma written_take_steps: "written (take k (concat (map (\<lambda>d. [Fetch d, Sleep]) dates))) = []"
proof -
  let ?s = "concat (map (\<lambda>d. [Fetch d, Sleep]) dates)"
  have "written (take k ?s) @ written (drop k ?s) = written ?s"
    unfolding written_append [symmetric] by simp
  then show ?thesis
    by (simp add: written_steps)
qed

lemma range_loop_None:
  "range_loop get current end_day None n es all_data =
     (es @ concat (map (\<lambda>d. [Fetch d, Sleep]) [current..end_day]),
      Inr (all_data @ day_frames get [current..end_day]))"
proof (induction get current end_day "None :: int option" n es all_data rule: range_loop.induct)
  case (1 get current end_day n es all_data)
  show ?case
  proof (cases "current \<le> end_day")
    case False
    then show ?thesis
      by (simp add: range_loop.simps [of get current] day_frames_def)
  next
    case True
    then have u: "[current..end_day] = current # [current + 1..end_day]"
      by (simp add: upto_rec1)
    from scrape_daily_data_cases [of get current] show ?thesis
    proof
      assume a: "scrape_daily_data get current = Inr None"
      with True 1 [of None] show ?thesis
        by (simp add: range_loop.simps [of get current] bom_scrape_daily_data_eq u day_frames_def)
    next
      assume "\<exists>df. scrape_daily_data get current = Inr (Some df)"
      then obtain df where a: "scrape_daily_data get current = Inr (Some df)" ..
      with True 1 [of "Some df"] show ?thesis
        by (simp add: range_loop.simps [of get current] bom_scrape_daily_data_eq u day_frames_def)
    qed
  qed
qed

lemma range_loop_written:
  "written (fst (range_loop get current end_day max_days n es all_data)) = written es"
proof (induction get current end_day max_days n es all_data rule: range_loop.induct)
  case (1 get current end_day max_days n es all_data)
  let ?go = "current \<le> end_day \<and> \<not> (case max_days of None \<Rightarrow> False | Some m \<Rightarrow> m \<noteq> 0 \<and> m \<le> n)"
  show ?case
  proof (cases ?go)
    case False
    then show ?thesis
      by (simp only: range_loop.simps [of get current end_day max_days n es all_data]
          if_False fst_conv)
  next
    case True
    from scrape_daily_data_cases [of get current] show ?thesis
    proof
      assume a: "scrape_daily_data get current = Inr None"
      with True 1 [of None] show ?thesis
        by (simp add: range_loop.simps [of get current] bom_scrape_daily_data_eq written_def)
    next
      assume "\<exists>df. scrape_daily_data get current = Inr (Some df)"
      then obtain df where a: "scrape_daily_data get current = Inr (Some df)" ..
      with True 1 [of "Some df"] show ?thesis
        by (simp add: range_loop.simps [of get current] bom_scrape_daily_data_eq written_def)
    qed
  qed
qed

lemma scrape_date_range_written:
  "written (fst (scrape_date_range get start end_day max_days)) = []"
proof -
  obtain es r where l: "range_loop get start end_day max_days 0 [] [] = (es, r)"
    by (cases "range_loop get start end_day max_days 0 [] []")
  with range_loop_written [of get start end_day max_days 0 "[]" "[]"]
  have "written es = []"
    by (simp add: written_def)
  with l show ?thesis
    by (cases r) (simp_all add: scrape_date_range_def)
qed

lemmas web_defs = scrape_daily_data_def scrape_body_def sample_web_def sample_cells_def
  row_data_def float_cell_def parse_int_def py_int_def digits_val_def pow10_def

lemma round_double_small:
  "round_double 5 = Fin 5" "round_double 100 = Fin 100" "round_double 1000 = Fin 1000"
  using round_double_int [of 5] round_double_int [of 100] round_double_int [of 1000]
  by simp_all

lemma sample_day:
  "\<not> (400 \<le> st \<and> st < 600) \<Longrightarrow> scrape_daily_data (sample_web st) d =
     Inr (Some [\<lparr>date = d, rank = Some 1, release = Some (cps ''Test Movie''), movie_url = None,
                  daily_gross = Fin 1000, yd_change_pct = NaN, lw_change_pct = Fin 5,
                  theaters = Some 10, per_theater_avg = Fin 100, to_date_gross = Fin 1000,
                  days_in_release = None\<rparr>])"
  by (simp add: web_defs num_defs round_double_small del: not_le not_less)





text \<open>
  C9. A run of \<open>collect_year_batch\<close> fetches every date it is given, in order, and reads
  no file, so that nothing that an earlier run has done can keep it from fetching a
  date. It writes once, after the last date: a run that is interrupted earlier has
  written nothing. \<open>scrape_date_range\<close> fetches every date of its range (without
  \<open>max_days\<close>) and writes nothing at all.
\<close>

theorem batch_written_once_at_end:
  "fetched (fst (collect_year_batch get year dates)) = dates
   \<and> (k \<le> 2 * length dates
        \<longrightarrow> written (take k (fst (collect_year_batch get year dates))) = [])
   \<and> (day_frames get dates \<noteq> []
        \<longrightarrow> written (fst (collect_year_batch get year dates))
            = [(year, concat (day_frames get dates))])
   \<and> fetched (fst (scrape_date_range get start end_day None)) = [start..end_day]
   \<and> written (fst (scrape_date_range get start end_day max_days)) = []"
proof -
  let ?s = "concat (map (\<lambda>d. [Fetch d, Sleep]) dates)"
  have l: "length ?s = 2 * length dates"
    by (induction dates) simp_all
  have 1: "fetched (fst (collect_year_batch get year dates)) = dates"
    by (simp add: collect_year_batch_eq fetched_append fetched_steps) (simp add: fetched_def)
  have 2: "k \<le> 2 * length dates
      \<longrightarrow> written (take k (fst (collect_year_batch get year dates))) = []"
    by (simp add: collect_year_batch_eq l written_take_steps)
  have 3: "day_frames get dates \<noteq> []
      \<longrightarrow> written (fst (collect_year_batch get year dates))
          = [(year, concat (day_frames get dates))]"
    by (simp add: collect_year_batch_eq written_append written_steps) (simp add: written_def)
  have 4: "fetched (fst (scrape_date_range get start end_day None)) = [start..end_day]"
    by (simp add: scrape_date_range_def range_loop_None fetched_steps)
  from 1 2 3 4 scrape_date_range_written [of get start end_day max_days] show ?thesis
    by (intro conjI)
qed

text \<open>Two dates with data, and the run cut after the second date.\<close>

theorem batch_written_once_at_end_witness:
  "(4 :: nat) \<le> 2 * length [100, 107 :: int]
   \<and> day_frames (sample_web 200) [100, 107] \<noteq> []
   \<and> fetched (fst (collect_year_batch (sample_web 200) 2024 [100, 107])) = [100, 107]
   \<and> written (take 4 (fst (collect_year_batch (sample_web 200) 2024 [100, 107]))) = []
   \<and> written (fst (collect_year_batch (sample_web 200) 2024 [100, 107]))
       = [(2024, concat (day_frames (sample_web 200) [100, 107]))]"
proof -
  have a: "day_frames (sample_web 200) [100, 107] \<noteq> []"
    by (simp add: day_frames_def sample_day)
  from batch_written_once_at_end [of "sample_web 200" 2024 "[100, 107]" 4] a show ?thesis
    by simp
qed

text \<open>
  Both dates are fetched with success and the run is interrupted before it writes: no
  file holds their data, and the next run fetches both dates again.
\<close>

theorem interrupted_batch_is_lost:
  "take 4 (fst (collect_year_batch (sample_web 200) 2024 [100, 107]))
     = [Fetch 100, Sleep, Fetch 107, Sleep]
   \<and> written (take 4 (fst (collect_year_batch (sample_web 200) 2024 [100, 107]))) = []
   \<and> fetched (take 4 (fst (collect_year_batch (sample_web 200) 2024 [100, 107]))
        @ fst (collect_year_batch (sample_web 200) 2024 [100, 107]))
       = [100, 107, 100, 107]"
  by (simp add: collect_year_batch_eq fetched_def written_def)

end
